theory Spec2Isabelle
  imports Complex_Main "HOL-Library.AList"
begin

section \<open>Python values\<close>

text \<open>
  A script is structured data (parsed JSON): \<open>None\<close>, booleans, integers, strings, lists
  and string-keyed dictionaries. \<open>PObj\<close> is an opaque object handed out by the browser
  backend (a web element, a \<open>Select\<close> wrapper, image bytes); it is always truthy.
  A dictionary is an association list in insertion order; a key is looked up with
  \<open>map_of\<close>, so the first binding of a key is the one that counts.
\<close>

datatype pyval =
    PNone
  | PBool bool
  | PInt int
  | PStr string
  | PList "pyval list"
  | PDict "(string \<times> pyval) list"
  | PObj nat

text \<open>
  Text built by an f-string: literal pieces and interpolated values, in order.
\<close>

datatype frag = Lit string | Val pyval

type_synonym msg = "frag list"

text \<open>
  The exceptions the executor raises or receives. All of them are subclasses of
  Python's \<open>Exception\<close>; \<open>OtherError\<close> stands for any further such class that the
  backend may raise (a crashed session, an invalid selector, a stale element).
\<close>

datatype exn_class =
    ValueError
  | TypeError
  | AttributeError
  | KeyError
  | NoSuchElementException
  | TimeoutException
  | OtherError string

datatype exn = Exn exn_class msg

fun exn_class_of :: "exn \<Rightarrow> exn_class" where
  "exn_class_of (Exn c m) = c"

text \<open>\<open>str(e)\<close>: the text the exception was built with.\<close>

fun exn_str :: "exn \<Rightarrow> msg" where
  "exn_str (Exn c m) = m"

fun truthy :: "pyval \<Rightarrow> bool" where
  "truthy PNone = False"
| "truthy (PBool b) = b"
| "truthy (PInt i) = (i \<noteq> 0)"
| "truthy (PStr s) = (s \<noteq> [])"
| "truthy (PList xs) = (xs \<noteq> [])"
| "truthy (PDict kvs) = (kvs \<noteq> [])"
| "truthy (PObj n) = True"

fun type_name :: "pyval \<Rightarrow> string" where
  "type_name PNone = ''NoneType''"
| "type_name (PBool b) = ''bool''"
| "type_name (PInt i) = ''int''"
| "type_name (PStr s) = ''str''"
| "type_name (PList xs) = ''list''"
| "type_name (PDict kvs) = ''dict''"
| "type_name (PObj n) = ''object''"

definition attribute_error :: "pyval \<Rightarrow> string \<Rightarrow> exn" where
  "attribute_error v a =
     Exn AttributeError [Val (PStr (type_name v)), Lit '' object has no attribute '', Val (PStr a)]"

text \<open>\<open>v.get(k, dflt)\<close>: only a dictionary has the method.\<close>

fun py_get :: "pyval \<Rightarrow> string \<Rightarrow> pyval \<Rightarrow> exn + pyval" where
  "py_get (PDict kvs) k dflt = Inr (case map_of kvs k of None \<Rightarrow> dflt | Some v \<Rightarrow> v)"
| "py_get v k dflt = Inl (attribute_error v ''get'')"

text \<open>
  \<open>get_or\<close> is \<open>.get\<close> at a place where the same value has already answered \<open>.get\<close>,
  so the call cannot raise any more.
\<close>

definition get_or :: "pyval \<Rightarrow> string \<Rightarrow> pyval \<Rightarrow> pyval" where
  "get_or v k dflt = (case py_get v k dflt of Inl e \<Rightarrow> dflt | Inr x \<Rightarrow> x)"

text \<open>\<open>k in v\<close> and \<open>v[k]\<close> for a dictionary \<open>v\<close>.\<close>

fun py_has_key :: "pyval \<Rightarrow> string \<Rightarrow> bool" where
  "py_has_key (PDict kvs) k = (map_of kvs k \<noteq> None)"
| "py_has_key v k = False"

fun py_item :: "pyval \<Rightarrow> string \<Rightarrow> exn + pyval" where
  "py_item (PDict kvs) k =
     (case map_of kvs k of None \<Rightarrow> Inl (Exn KeyError [Val (PStr k)]) | Some v \<Rightarrow> Inr v)"
| "py_item v k =
     Inl (Exn TypeError [Val (PStr (type_name v)), Lit '' object is not subscriptable''])"

text \<open>
  Iteration: a list yields its elements, a dictionary its keys, a string its
  characters; nothing else is iterable.
\<close>

fun py_iter :: "pyval \<Rightarrow> exn + pyval list" where
  "py_iter (PList xs) = Inr xs"
| "py_iter (PDict kvs) = Inr (map PStr (remdups (map fst kvs)))"
| "py_iter (PStr s) = Inr (map (\<lambda>c. PStr [c]) s)"
| "py_iter v = Inl (Exn TypeError [Val (PStr (type_name v)), Lit '' object is not iterable''])"

definition py_len :: "pyval \<Rightarrow> exn + nat" where
  "py_len v =
     (case py_iter v of
        Inl e \<Rightarrow> Inl (Exn TypeError [Lit ''object of type '', Val (PStr (type_name v)), Lit '' has no len()''])
      | Inr xs \<Rightarrow> Inr (length xs))"

text \<open>\<open>a, b = v\<close>: the value must be iterable and yield exactly two items.\<close>

definition unpack2 :: "pyval \<Rightarrow> exn + (pyval \<times> pyval)" where
  "unpack2 v =
     (case py_iter v of
        Inl e \<Rightarrow> Inl (Exn TypeError [Lit ''cannot unpack non-iterable '', Lit (type_name v), Lit '' object''])
      | Inr xs \<Rightarrow>
          (case xs of
             [a, b] \<Rightarrow> Inr (a, b)
           | _ \<Rightarrow>
               if length xs < 2
               then Inl (Exn ValueError [Lit ''not enough values to unpack (expected 2, got '',
                                          Val (PInt (int (length xs))), Lit '')''])
               else Inl (Exn ValueError [Lit ''too many values to unpack (expected 2)''])))"

text \<open>\<open>s.upper()\<close> on ASCII text; only a string has the method.\<close>

definition upper_char :: "char \<Rightarrow> char" where
  "upper_char c =
     (case map_of (zip ''abcdefghijklmnopqrstuvwxyz'' ''ABCDEFGHIJKLMNOPQRSTUVWXYZ'') c of
        None \<Rightarrow> c
      | Some u \<Rightarrow> u)"

fun py_upper :: "pyval \<Rightarrow> exn + string" where
  "py_upper (PStr s) = Inr (map upper_char s)"
| "py_upper v = Inl (attribute_error v ''upper'')"

section \<open>The browser backend\<close>

text \<open>
  The browser-driving library is outside the repository. The executor reaches it only
  through the operations below; what each operation answers is a parameter of the
  model (the \<open>backend\<close> function), which may depend on everything that happened before.
\<close>

datatype strategy =
    By_ID | By_XPATH | By_CSS_SELECTOR | By_CLASS_NAME
  | By_NAME | By_LINK_TEXT | By_PARTIAL_LINK_TEXT | By_TAG_NAME

datatype wait_condition =
    Presence_of_element_located
  | Visibility_of_element_located
  | Element_to_be_clickable
  | Invisibility_of_element_located

datatype page_script =
    Ready_state_complete
  | JQuery_defined_and_idle
  | JQuery_undefined_or_idle

datatype call =
    Start_chrome
  | Set_page_load_timeout int
  | Get_screenshot_as_png
  | Get_url pyval
  | Refresh
  | Back
  | Forward
  | Wait_until wait_condition strategy pyval pyval
  | Wait_for_script page_script pyval
  | Switch_to_frame pyval
  | Switch_to_default_content
  | Switch_to_parent_frame
  | Click_element_with_offset pyval int int
  | Click_by_offset pyval pyval
  | Select_init pyval
  | Select_by_value pyval pyval
  | Select_by_index pyval pyval
  | Select_by_visible_text pyval pyval
  | Current_window_handle
  | Window_handles
  | Wait_number_of_windows int nat
  | Switch_to_window pyval

text \<open>
  The session as the executor can observe it: how deep the driving context is nested
  in frames (0 is the default content) and the operations issued so far, oldest first.
\<close>

record driver =
  frame_depth :: nat
  calls :: "call list"

type_synonym backend = "call \<Rightarrow> driver \<Rightarrow> exn + pyval"

text \<open>
  What a successful operation does to the frame context: entering a frame nests one
  level deeper, the parent frame is one level up (the top stays the top), the default
  content is depth 0.
\<close>

fun effect :: "call \<Rightarrow> driver \<Rightarrow> driver" where
  "effect (Switch_to_frame f) d = d\<lparr>frame_depth := Suc (frame_depth d)\<rparr>"
| "effect Switch_to_default_content d = d\<lparr>frame_depth := 0\<rparr>"
| "effect Switch_to_parent_frame d = d\<lparr>frame_depth := frame_depth d - 1\<rparr>"
| "effect c d = d"

text \<open>
  One backend operation: it is recorded, and it either raises or answers and takes effect.
\<close>

definition invoke :: "backend \<Rightarrow> call \<Rightarrow> driver \<Rightarrow> (exn + pyval) \<times> driver" where
  "invoke B c d =
     (case B c d of
        Inl e \<Rightarrow> (Inl e, d\<lparr>calls := calls d @ [c]\<rparr>)
      | Inr v \<Rightarrow> (Inr v, effect c (d\<lparr>calls := calls d @ [c]\<rparr>)))"

definition new_driver :: driver where
  "new_driver = \<lparr>frame_depth = 0, calls = []\<rparr>"

section \<open>Locator resolution\<close>

text \<open>
  \<open>except (NoSuchElementException, TimeoutException)\<close>: the two classes a resolver
  treats as "this locator did not resolve".
\<close>

fun not_found_or_timeout :: "exn \<Rightarrow> bool" where
  "not_found_or_timeout (Exn c m) = (c = NoSuchElementException \<or> c = TimeoutException)"

text \<open>How one pass over a loop body ends: the function returns, raises, or the loop goes on.\<close>

datatype 'a flow = Return 'a | Raise exn | Next

text \<open>\<open>_get_by_from_string\<close>: the strategy name is upper-cased, then looked up.\<close>

definition by_table :: "(string \<times> strategy) list" where
  "by_table =
     [(''ID'', By_ID),
      (''XPATH'', By_XPATH),
      (''CSS_SELECTOR'', By_CSS_SELECTOR),
      (''CLASS_NAME'', By_CLASS_NAME),
      (''NAME'', By_NAME),
      (''LINK_TEXT'', By_LINK_TEXT),
      (''PARTIAL_LINK_TEXT'', By_PARTIAL_LINK_TEXT),
      (''TAG_NAME'', By_TAG_NAME)]"

definition get_by_from_string :: "pyval \<Rightarrow> exn + strategy option" where
  "get_by_from_string locator_type_str =
     (case py_upper locator_type_str of
        Inl e \<Rightarrow> Inl e
      | Inr u \<Rightarrow> Inr (map_of by_table u))"

text \<open>
  The loop of \<open>_find_element_with_wait\<close>. Unpacking the locator and looking up its
  strategy happen outside the \<open>try\<close>, so their errors leave the function; an
  unsupported strategy is skipped; each supported locator is waited for with the
  action's timeout.
\<close>

fun wait_loop :: "backend \<Rightarrow> wait_condition \<Rightarrow> pyval \<Rightarrow> pyval list \<Rightarrow> driver \<Rightarrow> pyval flow \<times> driver" where
  "wait_loop B condition timeout [] d = (Next, d)"
| "wait_loop B condition timeout (l # ls) d =
     (case unpack2 l of
        Inl e \<Rightarrow> (Raise e, d)
      | Inr (locator_type_str, locator_value) \<Rightarrow>
          (case get_by_from_string locator_type_str of
             Inl e \<Rightarrow> (Raise e, d)
           | Inr None \<Rightarrow> wait_loop B condition timeout ls d
           | Inr (Some by) \<Rightarrow>
               (case invoke B (Wait_until condition by locator_value timeout) d of
                  (Inr element, d') \<Rightarrow> (Return element, d')
                | (Inl e, d') \<Rightarrow>
                    if not_found_or_timeout e then wait_loop B condition timeout ls d'
                    else (Raise e, d'))))"

definition find_element_with_wait :: "backend \<Rightarrow> pyval \<Rightarrow> wait_condition \<Rightarrow> driver \<Rightarrow> (exn + pyval) \<times> driver" where
  "find_element_with_wait B action condition d =
     (case py_get action ''locators'' (PList []) of
        Inl e \<Rightarrow> (Inl e, d)
      | Inr locators \<Rightarrow>
          let timeout = get_or action ''timeout'' (PInt 10) in
          if \<not> truthy locators
          then (Inl (Exn ValueError [Lit ''No locators provided for wait action'']), d)
          else
            (case py_iter locators of
               Inl e \<Rightarrow> (Inl e, d)
             | Inr ls \<Rightarrow>
                 (case wait_loop B condition timeout ls d of
                    (Return element, d') \<Rightarrow> (Inr element, d')
                  | (Raise e, d') \<Rightarrow> (Inl e, d')
                  | (Next, d') \<Rightarrow>
                      (Inl (Exn NoSuchElementException
                              [Lit ''Element not found with locators: '', Val locators]), d'))))"

text \<open>
  \<open>_find_element\<close>: the strategy name is compared as written, against lower-case
  names, in the order of the source's \<open>if\<close>/\<open>elif\<close> chain.
\<close>

definition find_by :: "pyval \<Rightarrow> strategy option" where
  "find_by locator_type =
     (if locator_type = PStr ''id'' then Some By_ID
      else if locator_type = PStr ''xpath'' then Some By_XPATH
      else if locator_type = PStr ''css'' then Some By_CSS_SELECTOR
      else if locator_type = PStr ''name'' then Some By_NAME
      else if locator_type = PStr ''class_name'' then Some By_CLASS_NAME
      else if locator_type = PStr ''link_text'' then Some By_LINK_TEXT
      else if locator_type = PStr ''partial_link_text'' then Some By_PARTIAL_LINK_TEXT
      else if locator_type = PStr ''tag_name'' then Some By_TAG_NAME
      else None)"

fun find_loop :: "backend \<Rightarrow> pyval \<Rightarrow> pyval list \<Rightarrow> driver \<Rightarrow> pyval flow \<times> driver" where
  "find_loop B timeout [] d = (Next, d)"
| "find_loop B timeout (l # ls) d =
     (case unpack2 l of
        Inl e \<Rightarrow> (Raise e, d)
      | Inr (locator_type, locator_value) \<Rightarrow>
          (case find_by locator_type of
             None \<Rightarrow> find_loop B timeout ls d
           | Some by \<Rightarrow>
               (case invoke B (Wait_until Visibility_of_element_located by locator_value timeout) d of
                  (Inr element, d') \<Rightarrow> (Return element, d')
                | (Inl e, d') \<Rightarrow>
                    if not_found_or_timeout e then find_loop B timeout ls d'
                    else (Raise e, d'))))"

definition find_element :: "backend \<Rightarrow> pyval \<Rightarrow> driver \<Rightarrow> (exn + pyval) \<times> driver" where
  "find_element B action d =
     (case py_get action ''locators'' (PList []) of
        Inl e \<Rightarrow> (Inl e, d)
      | Inr locators \<Rightarrow>
          let timeout = get_or action ''timeout'' (PInt 10) in
          (case py_iter locators of
             Inl e \<Rightarrow> (Inl e, d)
           | Inr ls \<Rightarrow>
               (case find_loop B timeout ls d of
                  (Return element, d') \<Rightarrow> (Inr element, d')
                | (Raise e, d') \<Rightarrow> (Inl e, d')
                | (Next, d') \<Rightarrow>
                    (Inl (Exn NoSuchElementException
                            [Lit ''Could not find element with any of the provided locators: '',
                             Val locators]), d'))))"

section \<open>Action handlers\<close>

type_synonym outcome = "(exn + pyval) \<times> driver"

text \<open>\<open>_handle_navigate\<close>\<close>

definition handle_navigate :: "backend \<Rightarrow> pyval \<Rightarrow> driver \<Rightarrow> outcome" where
  "handle_navigate B action d =
     (case py_get action ''url'' PNone of
        Inl e \<Rightarrow> (Inl e, d)
      | Inr url \<Rightarrow>
          if \<not> truthy url
          then (Inl (Exn ValueError [Lit ''No URL provided for navigation action'']), d)
          else
            (case invoke B (Get_url url) d of
               (Inl e, d1) \<Rightarrow> (Inl e, d1)
             | (Inr r, d1) \<Rightarrow>
                 (case invoke B (Wait_for_script Ready_state_complete (PInt 30)) d1 of
                    (Inl e, d2) \<Rightarrow> (Inl e, d2)
                  | (Inr r', d2) \<Rightarrow> (Inr (PBool True), d2))))"

text \<open>\<open>_handle_wait_for_jquery\<close>: two waits, and no \<open>return\<close> statement.\<close>

definition handle_wait_for_jquery :: "backend \<Rightarrow> pyval \<Rightarrow> driver \<Rightarrow> outcome" where
  "handle_wait_for_jquery B action d =
     (case py_get action ''timeout'' (PInt 10) of
        Inl e \<Rightarrow> (Inl e, d)
      | Inr timeout \<Rightarrow>
          (case invoke B (Wait_for_script JQuery_defined_and_idle timeout) d of
             (Inl e, d1) \<Rightarrow> (Inl e, d1)
           | (Inr r, d1) \<Rightarrow>
               (case invoke B (Wait_for_script JQuery_undefined_or_idle timeout) d1 of
                  (Inl e, d2) \<Rightarrow> (Inl e, d2)
                | (Inr r', d2) \<Rightarrow> (Inr PNone, d2))))"

text \<open>
  \<open>_handle_click\<close>. Everything inside the loop body is in a \<open>try\<close> whose handlers all
  \<open>continue\<close>; \<open>element\<close> keeps the last element a wait returned, also when the click
  on it failed. The loop answers whether it clicked, and the final \<open>element\<close>.
\<close>

definition click_by :: "pyval \<Rightarrow> exn + strategy option" where
  "click_by locator_type_str =
     (case py_upper locator_type_str of
        Inl e \<Rightarrow> Inl e
      | Inr u \<Rightarrow>
          Inr (map_of
                 [(''ID'', By_ID),
                  (''XPATH'', By_XPATH),
                  (''CSS_SELECTOR'', By_CSS_SELECTOR),
                  (''CLASS_NAME'', By_CLASS_NAME),
                  (''NAME'', By_NAME),
                  (''LINK_TEXT'', By_LINK_TEXT),
                  (''PARTIAL_LINK_TEXT'', By_PARTIAL_LINK_TEXT),
                  (''TAG_NAME'', By_TAG_NAME)] u))"

fun click_loop :: "backend \<Rightarrow> pyval list \<Rightarrow> pyval \<Rightarrow> driver \<Rightarrow> (bool \<times> pyval) \<times> driver" where
  "click_loop B [] element d = ((False, element), d)"
| "click_loop B (locator # ls) element d =
     (case unpack2 locator of
        Inl e \<Rightarrow> click_loop B ls element d
      | Inr (locator_type_str, locator_value) \<Rightarrow>
          (case click_by locator_type_str of
             Inl e \<Rightarrow> click_loop B ls element d
           | Inr None \<Rightarrow> click_loop B ls element d
           | Inr (Some locator_type) \<Rightarrow>
               (case invoke B (Wait_until Element_to_be_clickable locator_type locator_value (PInt 5)) d of
                  (Inl e, d1) \<Rightarrow> click_loop B ls element d1
                | (Inr found, d1) \<Rightarrow>
                    (case invoke B (Click_element_with_offset found 1 1) d1 of
                       (Inl e, d2) \<Rightarrow> click_loop B ls found d2
                     | (Inr r, d2) \<Rightarrow> ((True, found), d2)))))"

definition handle_click :: "backend \<Rightarrow> pyval \<Rightarrow> driver \<Rightarrow> outcome" where
  "handle_click B action d =
     (case py_get action ''locators'' (PList []) of
        Inl e \<Rightarrow> (Inl e, d)
      | Inr locators \<Rightarrow>
          let x = get_or action ''x'' PNone;
              y = get_or action ''y'' PNone
          in
            (case (if truthy locators
                   then (case py_iter locators of
                           Inl e \<Rightarrow> Inl e
                         | Inr ls \<Rightarrow> Inr (click_loop B ls PNone d))
                   else Inr ((False, PNone), d)) of
               Inl e \<Rightarrow> (Inl e, d)
             | Inr ((True, element), d1) \<Rightarrow> (Inr (PBool True), d1)
             | Inr ((False, element), d1) \<Rightarrow>
                 if element = PNone \<and> x \<noteq> PNone \<and> y \<noteq> PNone
                 then
                   (case invoke B (Click_by_offset x y) d1 of
                      (Inl e, d2) \<Rightarrow> (Inl e, d2)
                    | (Inr r, d2) \<Rightarrow> (Inr (PBool True), d2))
                 else if element = PNone
                 then (Inl (Exn NoSuchElementException
                              [Lit ''Could not find element with provided locators'']), d1)
                 else (Inr (PBool False), d1)))"

text \<open>
  \<open>_handle_select\<close>: the element is resolved and wrapped in \<open>Select\<close> first (the
  wrapper asks the backend for the element's tag); only then are the selection
  criteria looked at, in the order value, index, visible text.
\<close>

definition handle_select :: "backend \<Rightarrow> pyval \<Rightarrow> driver \<Rightarrow> outcome" where
  "handle_select B action d =
     (case find_element B action d of
        (Inl e, d1) \<Rightarrow> (Inl e, d1)
      | (Inr element, d1) \<Rightarrow>
          (case invoke B (Select_init element) d1 of
             (Inl e, d2) \<Rightarrow> (Inl e, d2)
           | (Inr select, d2) \<Rightarrow>
               if py_has_key action ''value''
               then
                 (case invoke B (Select_by_value select (get_or action ''value'' PNone)) d2 of
                    (Inl e, d3) \<Rightarrow> (Inl e, d3)
                  | (Inr r, d3) \<Rightarrow> (Inr (PBool True), d3))
               else if py_has_key action ''index''
               then
                 (case invoke B (Select_by_index select (get_or action ''index'' PNone)) d2 of
                    (Inl e, d3) \<Rightarrow> (Inl e, d3)
                  | (Inr r, d3) \<Rightarrow> (Inr (PBool True), d3))
               else if py_has_key action ''visible_text''
               then
                 (case invoke B (Select_by_visible_text select (get_or action ''visible_text'' PNone)) d2 of
                    (Inl e, d3) \<Rightarrow> (Inl e, d3)
                  | (Inr r, d3) \<Rightarrow> (Inr (PBool True), d3))
               else (Inl (Exn ValueError
                            [Lit ''No valid selection criteria provided for select action'']), d2)))"

text \<open>The three waits built on \<open>_find_element_with_wait\<close>.\<close>

definition handle_wait_for :: "wait_condition \<Rightarrow> backend \<Rightarrow> pyval \<Rightarrow> driver \<Rightarrow> outcome" where
  "handle_wait_for condition B action d =
     (case find_element_with_wait B action condition d of
        (Inl e, d1) \<Rightarrow> (Inl e, d1)
      | (Inr element, d1) \<Rightarrow> (Inr (PBool True), d1))"

text \<open>\<open>v[0]\<close>\<close>

fun py_first :: "pyval \<Rightarrow> exn + pyval" where
  "py_first (PList (x # xs)) = Inr x"
| "py_first (PList []) = Inl (Exn (OtherError ''IndexError'') [Lit ''list index out of range''])"
| "py_first (PStr (c # cs)) = Inr (PStr [c])"
| "py_first (PStr []) = Inl (Exn (OtherError ''IndexError'') [Lit ''string index out of range''])"
| "py_first (PDict kvs) = Inl (Exn KeyError [Val (PInt 0)])"
| "py_first v = Inl (Exn TypeError [Val (PStr (type_name v)), Lit '' object is not subscriptable''])"

text \<open>\<open>_handle_wait_for_element_invisible\<close>: only the first locator is consulted.\<close>

definition handle_wait_for_element_invisible :: "backend \<Rightarrow> pyval \<Rightarrow> driver \<Rightarrow> outcome" where
  "handle_wait_for_element_invisible B action d =
     (case py_get action ''locators'' (PList []) of
        Inl e \<Rightarrow> (Inl e, d)
      | Inr locators \<Rightarrow>
          let timeout = get_or action ''timeout'' (PInt 10) in
          if \<not> truthy locators
          then (Inl (Exn ValueError [Lit ''No locators provided for wait_for_element_invisible'']), d)
          else
            (case py_first locators of
               Inl e \<Rightarrow> (Inl e, d)
             | Inr l \<Rightarrow>
                 (case unpack2 l of
                    Inl e \<Rightarrow> (Inl e, d)
                  | Inr (locator_type_str, locator_value) \<Rightarrow>
                      (case get_by_from_string locator_type_str of
                         Inl e \<Rightarrow> (Inl e, d)
                       | Inr None \<Rightarrow>
                           (Inl (Exn ValueError
                                   [Lit ''Unsupported locator type: '', Val locator_type_str]), d)
                       | Inr (Some by) \<Rightarrow>
                           (case invoke B (Wait_until Invisibility_of_element_located by locator_value timeout) d of
                              (Inl e, d1) \<Rightarrow> (Inl e, d1)
                            | (Inr r, d1) \<Rightarrow> (Inr (PBool True), d1))))))"

text \<open>
  \<open>_handle_switch_window\<close>. The \<open>try\<close> around the wait covers reading the current
  handles, their count and the wait itself; only a timeout is turned into \<open>False\<close>.
\<close>

definition wait_for_new_window :: "backend \<Rightarrow> driver \<Rightarrow> outcome" where
  "wait_for_new_window B d =
     (case invoke B Window_handles d of
        (Inl e, d1) \<Rightarrow> (Inl e, d1)
      | (Inr handles, d1) \<Rightarrow>
          (case py_len handles of
             Inl e \<Rightarrow> (Inl e, d1)
           | Inr n \<Rightarrow> invoke B (Wait_number_of_windows 10 (n + 1)) d1))"

definition handle_switch_window :: "backend \<Rightarrow> pyval \<Rightarrow> driver \<Rightarrow> outcome" where
  "handle_switch_window B action d =
     (case py_get action ''target'' (PStr ''new'') of
        Inl e \<Rightarrow> (Inl e, d)
      | Inr target \<Rightarrow>
          if target = PStr ''new''
          then
            (case invoke B Current_window_handle d of
               (Inl e, d1) \<Rightarrow> (Inl e, d1)
             | (Inr original_window, d1) \<Rightarrow>
                 (case wait_for_new_window B d1 of
                    (Inl e, d2) \<Rightarrow>
                      if exn_class_of e = TimeoutException then (Inr (PBool False), d2)
                      else (Inl e, d2)
                  | (Inr r, d2) \<Rightarrow>
                      (case invoke B Window_handles d2 of
                         (Inl e, d3) \<Rightarrow> (Inl e, d3)
                       | (Inr handles, d3) \<Rightarrow>
                           (case py_iter handles of
                              Inl e \<Rightarrow> (Inl e, d3)
                            | Inr hs \<Rightarrow>
                                (case filter (\<lambda>h. h \<noteq> original_window) hs of
                                   [] \<Rightarrow> (Inr (PBool False), d3)
                                 | h # rest \<Rightarrow>
                                     (case invoke B (Switch_to_window h) d3 of
                                        (Inl e, d4) \<Rightarrow> (Inl e, d4)
                                      | (Inr r', d4) \<Rightarrow> (Inr (PBool True), d4)))))))
          else if target = PStr ''original''
          then
            (case invoke B Window_handles d of
               (Inl e, d1) \<Rightarrow> (Inl e, d1)
             | (Inr handles, d1) \<Rightarrow>
                 if truthy handles
                 then
                   (case invoke B Window_handles d1 of
                      (Inl e, d2) \<Rightarrow> (Inl e, d2)
                    | (Inr handles', d2) \<Rightarrow>
                        (case py_first handles' of
                           Inl e \<Rightarrow> (Inl e, d2)
                         | Inr h \<Rightarrow>
                             (case invoke B (Switch_to_window h) d2 of
                                (Inl e, d3) \<Rightarrow> (Inl e, d3)
                              | (Inr r, d3) \<Rightarrow> (Inr (PBool True), d3))))
                 else (Inr (PBool False), d1))
          else (Inr (PBool False), d))"

text \<open>Handlers that are one backend operation.\<close>

definition handle_direct :: "call \<Rightarrow> backend \<Rightarrow> driver \<Rightarrow> outcome" where
  "handle_direct c B d =
     (case invoke B c d of
        (Inl e, d1) \<Rightarrow> (Inl e, d1)
      | (Inr r, d1) \<Rightarrow> (Inr (PBool True), d1))"

text \<open>\<open>_handle_switch_to_frame\<close>\<close>

definition handle_switch_to_frame :: "backend \<Rightarrow> pyval \<Rightarrow> driver \<Rightarrow> outcome" where
  "handle_switch_to_frame B action d =
     (case py_get action ''frame_reference'' PNone of
        Inl e \<Rightarrow> (Inl e, d)
      | Inr frame_reference \<Rightarrow>
          if frame_reference = PNone
          then (Inl (Exn ValueError
                       [Lit ''frame_reference is required for switch_to_frame action'']), d)
          else handle_direct (Switch_to_frame frame_reference) B d)"

section \<open>Dispatch\<close>

text \<open>
  The handlers. Those whose body is modelled above have a constructor of their own;
  any other handler is \<open>Handle_other\<close> with the name of its method, and what it does
  is a parameter of the model: any function from the action and the session to an
  outcome and a session.
\<close>

datatype handler =
    Handle_navigate
  | Handle_click
  | Handle_select
  | Handle_switch_window
  | Handle_switch_default_content
  | Handle_refresh
  | Handle_back
  | Handle_forward
  | Handle_switch_to_frame
  | Handle_switch_to_parent_frame
  | Handle_execute_in_frame
  | Handle_wait_for_element
  | Handle_wait_for_element_visible
  | Handle_wait_for_element_clickable
  | Handle_wait_for_element_invisible
  | Handle_wait_for_jquery
  | Handle_other string

type_synonym other_handlers = "string \<Rightarrow> pyval \<Rightarrow> driver \<Rightarrow> outcome"

definition handlers :: "(string \<times> handler) list" where
  "handlers =
     [(''navigate'', Handle_navigate),
      (''go_to_url'', Handle_navigate),
      (''click'', Handle_click),
      (''input'', Handle_other ''_handle_input''),
      (''type'', Handle_other ''_handle_input''),
      (''select'', Handle_select),
      (''wait'', Handle_other ''_handle_wait''),
      (''sleep'', Handle_other ''_handle_wait''),
      (''execute_js'', Handle_other ''_handle_execute_js''),
      (''js'', Handle_other ''_handle_execute_js''),
      (''switch_to_window'', Handle_switch_window),
      (''key_down'', Handle_other ''_handle_key_down''),
      (''key_up'', Handle_other ''_handle_key_up''),
      (''type_credential'', Handle_other ''_handle_type_credential''),
      (''tab'', Handle_other ''_handle_tab''),
      (''click_coordinates'', Handle_other ''_handle_click_coordinates''),
      (''switch_to_default_content'', Handle_switch_default_content),
      (''move_to_element'', Handle_other ''_handle_move_to_element''),
      (''double_click'', Handle_other ''_handle_double_click''),
      (''right_click'', Handle_other ''_handle_right_click''),
      (''drag_and_drop'', Handle_other ''_handle_drag_and_drop''),
      (''scroll_to'', Handle_other ''_handle_scroll_to''),
      (''hover'', Handle_other ''_handle_hover''),
      (''refresh'', Handle_refresh),
      (''back'', Handle_back),
      (''forward'', Handle_forward),
      (''accept_alert'', Handle_other ''_handle_accept_alert''),
      (''dismiss_alert'', Handle_other ''_handle_dismiss_alert''),
      (''switch_to_frame'', Handle_switch_to_frame),
      (''switch_to_parent_frame'', Handle_switch_to_parent_frame),
      (''execute_async_js'', Handle_other ''_handle_execute_async_js''),
      (''set_window_size'', Handle_other ''_handle_set_window_size''),
      (''maximize_window'', Handle_other ''_handle_maximize_window''),
      (''minimize_window'', Handle_other ''_handle_minimize_window''),
      (''fullscreen_window'', Handle_other ''_handle_fullscreen_window''),
      (''take_screenshot'', Handle_other ''_handle_take_screenshot''),
      (''save_screenshot'', Handle_other ''_handle_save_screenshot''),
      (''set_cookie'', Handle_other ''_handle_set_cookie''),
      (''delete_cookie'', Handle_other ''_handle_delete_cookie''),
      (''delete_all_cookies'', Handle_other ''_handle_delete_all_cookies''),
      (''get_cookies'', Handle_other ''_handle_get_cookies''),
      (''get_cookie'', Handle_other ''_handle_get_cookie''),
      (''add_cookie'', Handle_other ''_handle_add_cookie''),
      (''execute_in_frame'', Handle_execute_in_frame),
      (''wait_for_element'', Handle_wait_for_element),
      (''wait_for_element_visible'', Handle_wait_for_element_visible),
      (''wait_for_element_clickable'', Handle_wait_for_element_clickable),
      (''wait_for_element_invisible'', Handle_wait_for_element_invisible),
      (''wait_for_page_load'', Handle_other ''_handle_wait_for_page_load''),
      (''wait_for_ajax'', Handle_other ''_handle_wait_for_ajax''),
      (''wait_for_angular'', Handle_other ''_handle_wait_for_angular''),
      (''wait_for_jquery'', Handle_wait_for_jquery),
      (''wait_for_js_condition'', Handle_other ''_handle_wait_for_js_condition''),
      (''wait_for_url'', Handle_other ''_handle_wait_for_url''),
      (''wait_for_url_contains'', Handle_other ''_handle_wait_for_url_contains''),
      (''wait_for_title'', Handle_other ''_handle_wait_for_title''),
      (''wait_for_title_contains'', Handle_other ''_handle_wait_for_title_contains''),
      (''wait_for_alert'', Handle_other ''_handle_wait_for_alert''),
      (''wait_for_alert_text'', Handle_other ''_handle_wait_for_alert_text''),
      (''wait_for_alert_text_contains'', Handle_other ''_handle_wait_for_alert_text_contains''),
      (''wait_for_alert_not_present'', Handle_other ''_handle_wait_for_alert_not_present'')]"

text \<open>
  \<open>_get_action_handler\<close>: \<open>handlers.get(action_type)\<close>. A list or a dictionary cannot
  be hashed; any other value that is not one of the keys gives \<open>None\<close>.
\<close>

fun get_action_handler :: "pyval \<Rightarrow> exn + handler option" where
  "get_action_handler (PStr s) = Inr (map_of handlers s)"
| "get_action_handler (PList xs) = Inl (Exn TypeError [Lit ''unhashable type: '', Val (PStr ''list'')])"
| "get_action_handler (PDict kvs) = Inl (Exn TypeError [Lit ''unhashable type: '', Val (PStr ''dict'')])"
| "get_action_handler v = Inr None"

text \<open>
  Entering the frame of \<open>_handle_execute_in_frame\<close>: by index, or through
  \<open>_find_element\<close> on the one frame locator.
\<close>

definition enter_frame :: "backend \<Rightarrow> pyval \<Rightarrow> driver \<Rightarrow> outcome" where
  "enter_frame B frame_locator d =
     (case py_get frame_locator ''type'' PNone of
        Inl e \<Rightarrow> (Inl e, d)
      | Inr t \<Rightarrow>
          if t = PStr ''index''
          then
            (case py_item frame_locator ''value'' of
               Inl e \<Rightarrow> (Inl e, d)
             | Inr v \<Rightarrow> invoke B (Switch_to_frame v) d)
          else
            (case find_element B (PDict [(''locators'', PList [frame_locator])]) d of
               (Inl e, d1) \<Rightarrow> (Inl e, d1)
             | (Inr frame_element, d1) \<Rightarrow> invoke B (Switch_to_frame frame_element) d1))"

text \<open>
  What the loop over \<open>actions\<close> raises when \<open>actions\<close> is truthy but not a list: a
  number is not iterable, and a string or a dictionary yields strings, the first of
  which has no \<open>get\<close>.
\<close>

definition non_list_actions_error :: "pyval \<Rightarrow> exn" where
  "non_list_actions_error actions =
     (case py_iter actions of
        Inl e \<Rightarrow> e
      | Inr items \<Rightarrow> attribute_error (PStr []) ''get'')"

lemma size_map_of_value:
  "map_of kvs k = Some v \<Longrightarrow> size v < size (PDict kvs)"
  by (induction kvs) (auto split: if_splits)

lemma size_get_or_list:
  "get_or action k dflt = PList items \<Longrightarrow> dflt = PList [] \<Longrightarrow>
   size_list size items < Suc (size action)"
  by (cases action)
     (auto simp: get_or_def attribute_error_def split: option.splits dest: size_map_of_value)

text \<open>
  \<open>handler(action)\<close> for every handler, and the nested loop of
  \<open>_handle_execute_in_frame\<close>, which dispatches through the same table (so frames
  nest). The frame handler has no \<open>return\<close> value; its \<open>finally\<close> switches to the
  default content, and an exception of that switch replaces the one in flight.
\<close>

function run_handler :: "backend \<Rightarrow> other_handlers \<Rightarrow> handler \<Rightarrow> pyval \<Rightarrow> driver \<Rightarrow> outcome"
  and run_frame_actions :: "backend \<Rightarrow> other_handlers \<Rightarrow> pyval list \<Rightarrow> driver \<Rightarrow> outcome"
where
  "run_handler B H Handle_navigate action d = handle_navigate B action d"
| "run_handler B H Handle_click action d = handle_click B action d"
| "run_handler B H Handle_select action d = handle_select B action d"
| "run_handler B H Handle_switch_window action d = handle_switch_window B action d"
| "run_handler B H Handle_switch_default_content action d = handle_direct Switch_to_default_content B d"
| "run_handler B H Handle_refresh action d = handle_direct Refresh B d"
| "run_handler B H Handle_back action d = handle_direct Back B d"
| "run_handler B H Handle_forward action d = handle_direct Forward B d"
| "run_handler B H Handle_switch_to_frame action d = handle_switch_to_frame B action d"
| "run_handler B H Handle_switch_to_parent_frame action d = handle_direct Switch_to_parent_frame B d"
| "run_handler B H Handle_wait_for_element action d =
     handle_wait_for Presence_of_element_located B action d"
| "run_handler B H Handle_wait_for_element_visible action d =
     handle_wait_for Visibility_of_element_located B action d"
| "run_handler B H Handle_wait_for_element_clickable action d =
     handle_wait_for Element_to_be_clickable B action d"
| "run_handler B H Handle_wait_for_element_invisible action d =
     handle_wait_for_element_invisible B action d"
| "run_handler B H Handle_wait_for_jquery action d = handle_wait_for_jquery B action d"
| "run_handler B H (Handle_other n) action d = H n action d"
| "run_handler B H Handle_execute_in_frame action d =
     (case py_get action ''frame_locator'' PNone of
        Inl e \<Rightarrow> (Inl e, d)
      | Inr frame_locator \<Rightarrow>
          (case get_or action ''actions'' (PList []) of
             actions \<Rightarrow>
               if \<not> truthy frame_locator \<or> \<not> truthy actions then (Inr PNone, d)
               else
                 (case (case enter_frame B frame_locator d of
                          (Inl e, d0) \<Rightarrow> (Inl e, d0)
                        | (Inr r, d0) \<Rightarrow>
                            (case actions of
                               PList items \<Rightarrow> run_frame_actions B H items d0
                             | _ \<Rightarrow> (Inl (non_list_actions_error actions), d0))) of
                    (body, d1) \<Rightarrow>
                      (case invoke B Switch_to_default_content d1 of
                         (Inl e, d2) \<Rightarrow> (Inl e, d2)
                       | (Inr r, d2) \<Rightarrow>
                           (case body of
                              Inl e \<Rightarrow> (Inl e, d2)
                            | Inr r' \<Rightarrow> (Inr PNone, d2))))))"
| "run_frame_actions B H [] d = (Inr PNone, d)"
| "run_frame_actions B H (action_item # rest) d =
     (case py_get action_item ''type'' PNone of
        Inl e \<Rightarrow> (Inl e, d)
      | Inr action_type \<Rightarrow>
          (case get_action_handler action_type of
             Inl e \<Rightarrow> (Inl e, d)
           | Inr None \<Rightarrow> run_frame_actions B H rest d
           | Inr (Some h) \<Rightarrow>
               (case run_handler B H h action_item d of
                  (Inl e, d1) \<Rightarrow> (Inl e, d1)
                | (Inr r, d1) \<Rightarrow> run_frame_actions B H rest d1)))"
  by pat_completeness auto
termination
  by (relation "measure (\<lambda>x. case x of
                    Inl (B, H, h, action, d) \<Rightarrow> 2 * size action + 1
                  | Inr (B, H, items, d) \<Rightarrow> 2 * size_list size items)")
     (auto dest: size_get_or_list)

section \<open>The execution report\<close>

text \<open>
  The report structures of \<open>execute_script\<close>. Wall-clock readings (\<open>start_time\<close>,
  \<open>end_time\<close>, \<open>duration\<close>, \<open>execution_time\<close>, \<open>timestamp\<close>) are left out;
  \<open>completion_percentage\<close>, a float in the source, is the exact quotient here. The
  keys \<open>error\<close> and \<open>completion_percentage\<close> exist only on some return paths.
\<close>

record action_result =
  a_index :: nat
  a_type :: pyval
  a_description :: pyval
  a_success :: bool
  a_error :: "msg option"
  a_screenshot :: "msg option"

record error_entry =
  e_action :: pyval
  e_error :: msg
  e_action_index :: nat

record results =
  success :: bool
  executed_actions :: nat
  total_actions :: nat
  errors :: "error_entry list"
  screenshots :: "(msg \<times> pyval) list"
  actions :: "action_result list"
  completion_percentage :: "rat option"
  error :: "msg option"
  name :: pyval
  description :: pyval
  version :: pyval
  created_at :: pyval
  updated_at :: pyval

section \<open>The orchestrator\<close>

text \<open>
  The start of the inner \<open>try\<close>: look the handler up, fail if there is none, call it.
\<close>

definition call_handler :: "backend \<Rightarrow> other_handlers \<Rightarrow> pyval \<Rightarrow> pyval \<Rightarrow> driver \<Rightarrow> outcome" where
  "call_handler B H action_type action d =
     (case get_action_handler action_type of
        Inl e \<Rightarrow> (Inl e, d)
      | Inr None \<Rightarrow>
          (Inl (Exn ValueError [Lit ''No handler found for action type: '', Val action_type]), d)
      | Inr (Some handler) \<Rightarrow> run_handler B H handler action d)"

definition screenshot_name :: "string \<Rightarrow> nat \<Rightarrow> pyval \<Rightarrow> msg" where
  "screenshot_name prefix index action_type =
     [Lit prefix, Val (PInt (int index)), Lit ''_'', Val action_type, Lit ''.png'']"

text \<open>
  One pass of the loop body from the inner \<open>try\<close> to the end of its \<open>finally\<close>, for an
  action that has already answered \<open>.get\<close>. The boolean says whether the loop breaks.
\<close>

definition execute_action ::
  "backend \<Rightarrow> other_handlers \<Rightarrow> nat \<Rightarrow> pyval \<Rightarrow> pyval \<Rightarrow> pyval \<Rightarrow> results \<Rightarrow> driver
   \<Rightarrow> bool \<times> results \<times> driver" where
  "execute_action B H index action action_type descr r d =
     (let action_result =
            \<lparr>a_index = index, a_type = action_type, a_description = descr,
             a_success = False, a_error = None, a_screenshot = None\<rparr>
      in
        case call_handler B H action_type action d of
          (Inr result, d1) \<Rightarrow>
            if truthy result \<and> truthy (get_or action ''take_screenshot'' (PBool False))
            then
              (case invoke B Get_screenshot_as_png d1 of
                 (Inr screenshot, d2) \<Rightarrow>
                   (False,
                    r\<lparr>screenshots :=
                        AList.update (screenshot_name ''screenshot_'' index action_type) screenshot
                          (screenshots r),
                      executed_actions := executed_actions r + 1,
                      actions := actions r @
                        [action_result\<lparr>a_success := True,
                           a_screenshot := Some (screenshot_name ''screenshot_'' index action_type)\<rparr>]\<rparr>,
                    d2)
               | (Inl e, d2) \<Rightarrow>
                   (False,
                    r\<lparr>executed_actions := executed_actions r + 1,
                      actions := actions r @ [action_result\<lparr>a_success := True\<rparr>]\<rparr>,
                    d2))
            else
              (False,
               r\<lparr>executed_actions := executed_actions r + 1,
                 actions := actions r @ [action_result\<lparr>a_success := truthy result\<rparr>]\<rparr>,
               d1)
        | (Inl e, d1) \<Rightarrow>
            (case invoke B Get_screenshot_as_png d1 of
               (shot, d2) \<Rightarrow>
                 (get_or action ''continue_on_error'' (PBool True) = PBool False,
                  r\<lparr>screenshots :=
                      (case shot of
                         Inr screenshot \<Rightarrow>
                           AList.update (screenshot_name ''error_'' index action_type) screenshot
                             (screenshots r)
                       | Inl e' \<Rightarrow> screenshots r),
                    errors := errors r @
                      [\<lparr>e_action = action, e_error = exn_str e, e_action_index = index\<rparr>],
                    actions := actions r @
                      [action_result
                         \<lparr>a_error := Some (exn_str e),
                          a_screenshot :=
                            (case shot of
                               Inr screenshot \<Rightarrow> Some (screenshot_name ''error_'' index action_type)
                             | Inl e' \<Rightarrow> None)\<rparr>]\<rparr>,
                  d2)))"

text \<open>
  The \<open>for\<close> loop over the enumerated actions. Reading \<open>type\<close> and \<open>description\<close> off
  the action is outside the inner \<open>try\<close>: if the action is not a dictionary the
  exception leaves the loop, which is the first component of the result.
\<close>

fun run_actions ::
  "backend \<Rightarrow> other_handlers \<Rightarrow> nat \<Rightarrow> pyval list \<Rightarrow> results \<Rightarrow> driver
   \<Rightarrow> exn option \<times> results \<times> driver" where
  "run_actions B H index [] r d = (None, r, d)"
| "run_actions B H index (action # rest) r d =
     (case py_get action ''type'' PNone of
        Inl e \<Rightarrow> (Some e, r, d)
      | Inr action_type \<Rightarrow>
          (case execute_action B H index action action_type
                  (get_or action ''description'' (PStr [])) r d of
             (True, r1, d1) \<Rightarrow> (None, r1, d1)
           | (False, r1, d1) \<Rightarrow> run_actions B H (Suc index) rest r1 d1))"

text \<open>
  \<open>start_driver\<close>: the browser is started and its page-load timeout set; a failure is
  logged and raised again. The second component is \<open>self.driver\<close> afterwards.
\<close>

definition start_driver :: "backend \<Rightarrow> (exn + driver) \<times> driver option" where
  "start_driver B =
     (case invoke B Start_chrome new_driver of
        (Inl e, d0) \<Rightarrow> (Inl e, None)
      | (Inr r, d0) \<Rightarrow>
          (case invoke B (Set_page_load_timeout 30) d0 of
             (Inl e, d1) \<Rightarrow> (Inl e, Some d1)
           | (Inr r', d1) \<Rightarrow> (Inr d1, Some d1)))"

definition initial_results :: "nat \<Rightarrow> results" where
  "initial_results n =
     \<lparr>success = True, executed_actions = 0, total_actions = n, errors = [],
      screenshots = [], actions = [], completion_percentage = None, error = None,
      name = PNone, description = PNone, version = PNone,
      created_at = PNone, updated_at = PNone\<rparr>"

text \<open>
  The body of the outer \<open>try\<close> up to the end of the loop: the metadata, then the
  actions.
\<close>

definition script_body ::
  "backend \<Rightarrow> other_handlers \<Rightarrow> pyval \<Rightarrow> results \<Rightarrow> driver \<Rightarrow> exn option \<times> results \<times> driver" where
  "script_body B H script_data r d =
     (let r1 = r\<lparr>name := get_or script_data ''name'' (PStr ''Unnamed Script''),
                 description := get_or script_data ''description'' (PStr []),
                 version := get_or script_data ''version'' (PStr ''1.0''),
                 created_at := get_or script_data ''created_at'' (PStr []),
                 updated_at := get_or script_data ''updated_at'' (PStr [])\<rparr>
      in case py_iter (get_or script_data ''actions'' (PList [])) of
           Inl e \<Rightarrow> (Some e, r1, d)
         | Inr items \<Rightarrow> run_actions B H 1 items r1 d)"

text \<open>
  \<open>ScriptExecutor.execute_script\<close>. The session is \<open>self.driver\<close>: \<open>None\<close> until a
  browser has been started. Starting the browser and building the initial report
  (which takes \<open>len\<close> of the actions) come before the outer \<open>try\<close>.
\<close>

definition execute_script ::
  "backend \<Rightarrow> other_handlers \<Rightarrow> pyval \<Rightarrow> driver option \<Rightarrow> (exn + results) \<times> driver option" where
  "execute_script B H script_data session =
     (case (case session of
              Some d \<Rightarrow> (Inr d, Some d)
            | None \<Rightarrow> start_driver B) of
        (Inl e, session') \<Rightarrow> (Inl e, session')
      | (Inr d, session') \<Rightarrow>
          (case py_get script_data ''actions'' (PList []) of
             Inl e \<Rightarrow> (Inl e, Some d)
           | Inr acts \<Rightarrow>
               (case py_len acts of
                  Inl e \<Rightarrow> (Inl e, Some d)
                | Inr n \<Rightarrow>
                    (case script_body B H script_data (initial_results n) d of
                       (None, r, d1) \<Rightarrow>
                         (Inr (r\<lparr>success := (errors r = []),
                                  completion_percentage :=
                                    Some (if total_actions r > 0
                                          then of_nat (executed_actions r) / of_nat (total_actions r) * 100
                                          else 100)\<rparr>),
                          Some d1)
                     | (Some e, r, d1) \<Rightarrow>
                         (Inr (r\<lparr>success := False,
                                  error := Some (Lit ''Unexpected error during script execution: ''
                                                  # exn_str e)\<rparr>),
                          Some d1)))))"

section \<open>Vocabulary, concrete backends and scripts\<close>

text \<open>
  Sessions and scripts on which the properties below are exercised. In \<open>no_other\<close>
  every handler that is not modelled reports success.
\<close>

definition no_other :: other_handlers where
  "no_other n action d = (Inr (PBool True), d)"

definition responsive :: backend where
  "responsive c d = Inr (PObj 0)"

definition unresponsive :: backend where
  "unresponsive c d = Inl (Exn (OtherError ''WebDriverException'') [Lit ''session lost''])"

definition jquery_action :: pyval where
  "jquery_action = PDict [(''type'', PStr ''wait_for_jquery'')]"

definition stopping_script :: pyval where
  "stopping_script =
     PDict [(''actions'',
             PList [PDict [(''type'', PStr ''refresh''), (''continue_on_error'', PBool False)],
                    PDict [(''type'', PStr ''back'')]])]"

definition stopped_report :: results where
  "stopped_report =
     \<lparr>success = False, executed_actions = 0, total_actions = 2,
      errors = [\<lparr>e_action = PDict [(''type'', PStr ''refresh''), (''continue_on_error'', PBool False)],
                 e_error = [Lit ''session lost''], e_action_index = 1\<rparr>],
      screenshots = [],
      actions = [\<lparr>a_index = 1, a_type = PStr ''refresh'', a_description = PStr [],
                  a_success = False, a_error = Some [Lit ''session lost''], a_screenshot = None\<rparr>],
      completion_percentage = Some 0, error = None,
      name = PStr ''Unnamed Script'', description = PStr [], version = PStr ''1.0'',
      created_at = PStr [], updated_at = PStr []\<rparr>"

definition failing_refresh :: pyval where
  "failing_refresh = PDict [(''type'', PStr ''refresh'')]"

definition stopping_refresh :: pyval where
  "stopping_refresh = PDict [(''type'', PStr ''refresh''), (''continue_on_error'', PBool False)]"

definition session_lost :: exn where
  "session_lost = Exn (OtherError ''WebDriverException'') [Lit ''session lost'']"




fun search_page :: backend where
  "search_page (Wait_until c by v t) d =
     (if by = By_ID \<and> v = PStr ''q'' then Inr (PObj 1)
      else Inl (Exn TimeoutException [Lit ''Message: '']))"
| "search_page c d = Inr (PObj 0)"

definition locate_q :: "string \<Rightarrow> pyval" where
  "locate_q s = PDict [(''locators'', PList [PList [PStr s, PStr ''q'']])]"


definition id_q :: pyval where
  "id_q = PList [PStr ''id'', PStr ''q'']"






definition no_locators :: pyval where
  "no_locators = PDict [(''type'', PStr ''wait_for_element''), (''locators'', PList [])]"

fun selection_call :: "call \<Rightarrow> bool" where
  "selection_call (Select_by_value sel v) = True"
| "selection_call (Select_by_index sel v) = True"
| "selection_call (Select_by_visible_text sel v) = True"
| "selection_call c = False"

definition select_q :: "(string \<times> pyval) list \<Rightarrow> pyval" where
  "select_q criteria = PDict ((''locators'', PList [id_q]) # criteria)"

definition no_criterion :: exn where
  "no_criterion = Exn ValueError [Lit ''No valid selection criteria provided for select action'']"

fun no_history :: backend where
  "no_history Back d = Inl (Exn (OtherError ''WebDriverException'') [Lit ''cannot go back''])"
| "no_history c d = Inr (PObj 0)"

fun three_windows :: backend where
  "three_windows Current_window_handle d = Inr (PStr ''B'')"
| "three_windows Window_handles d =
     (if Wait_number_of_windows 10 3 \<in> set (calls d)
      then Inr (PList [PStr ''A'', PStr ''B'', PStr ''C''])
      else Inr (PList [PStr ''A'', PStr ''B'']))"
| "three_windows c d = Inr PNone"

definition looked_up :: driver where
  "looked_up =
     \<lparr>frame_depth = 0,
      calls = [Wait_until Visibility_of_element_located By_ID (PStr ''q'') (PInt 10)]\<rparr>"

definition wrapped :: driver where
  "wrapped =
     \<lparr>frame_depth = 0,
      calls = [Wait_until Visibility_of_element_located By_ID (PStr ''q'') (PInt 10),
               Select_init (PObj 1)]\<rparr>"

definition by_text :: "(string \<times> pyval) list" where
  "by_text = [(''visible_text'', PStr ''Red'')]"

definition by_index_or_text :: "(string \<times> pyval) list" where
  "by_index_or_text = [(''visible_text'', PStr ''Red''), (''index'', PInt 2)]"

definition by_any :: "(string \<times> pyval) list" where
  "by_any = [(''visible_text'', PStr ''Red''), (''index'', PInt 2), (''value'', PStr ''r'')]"

definition frame_zero :: pyval where
  "frame_zero = PDict [(''type'', PStr ''index''), (''value'', PInt 0)]"

definition frame_action :: pyval where
  "frame_action =
     PDict [(''type'', PStr ''execute_in_frame''), (''frame_locator'', frame_zero),
            (''actions'', PList [PDict [(''type'', PStr ''refresh'')],
                                 PDict [(''type'', PStr ''back'')],
                                 PDict [(''type'', PStr ''forward'')]])]"

definition empty_frame_action :: pyval where
  "empty_frame_action =
     PDict [(''type'', PStr ''execute_in_frame''), (''frame_locator'', frame_zero),
            (''actions'', PList [])]"

definition cannot_go_back :: exn where
  "cannot_go_back = Exn (OtherError ''WebDriverException'') [Lit ''cannot go back'']"

definition inside_frame :: driver where
  "inside_frame = \<lparr>frame_depth = 1, calls = [Switch_to_frame (PInt 0)]\<rparr>"

definition left_frame :: driver where
  "left_frame =
     \<lparr>frame_depth = 0,
      calls = [Switch_to_frame (PInt 0), Refresh, Back, Switch_to_default_content]\<rparr>"

definition stuck_script :: pyval where
  "stuck_script =
     PDict [(''actions'',
             PList [PDict [(''type'', PStr ''switch_to_frame''), (''frame_reference'', PInt 0)],
                    empty_frame_action])]"

fun no_new_window :: backend where
  "no_new_window Current_window_handle d = Inr (PStr ''A'')"
| "no_new_window Window_handles d = Inr (PList [PStr ''A''])"
| "no_new_window (Wait_number_of_windows t n) d = Inl (Exn TimeoutException [Lit ''Message: ''])"
| "no_new_window c d = Inr (PObj 0)"

definition stopping_switch :: pyval where
  "stopping_switch =
     PDict [(''type'', PStr ''switch_to_window''), (''continue_on_error'', PBool False)]"

definition go_back :: pyval where
  "go_back = PDict [(''type'', PStr ''back'')]"

definition waited_for_window :: driver where
  "waited_for_window =
     \<lparr>frame_depth = 0,
      calls = [Current_window_handle, Window_handles, Wait_number_of_windows 10 2]\<rparr>"









section \<open>Properties of the orchestrator\<close>

text \<open>The loop never writes the \<open>error\<close> key: only the outer handler does.\<close>

lemma execute_action_error:
  "error (fst (snd (execute_action B H i a ty ds r d))) = error r"
  by (auto simp: execute_action_def Let_def split: prod.splits sum.splits)

lemma run_actions_error:
  "run_actions B H i as r d = (x, r', d') \<Longrightarrow> error r' = error r"
proof (induction as arbitrary: i r d)
  case Nil
  then show ?case by simp
next
  case (Cons a as)
  show ?case
  proof (cases "py_get a ''type'' PNone")
    case (Inl e)
    with Cons.prems show ?thesis by simp
  next
    case (Inr ty)
    obtain stop r1 d1 where
      ea: "execute_action B H i a ty (get_or a ''description'' (PStr [])) r d = (stop, r1, d1)"
      by (cases "execute_action B H i a ty (get_or a ''description'' (PStr [])) r d") auto
    have e1: "error r1 = error r"
      using execute_action_error [of B H i a ty "get_or a ''description'' (PStr [])" r d] ea
      by simp
    show ?thesis
    proof (cases stop)
      case True
      with Cons.prems Inr ea e1 show ?thesis by simp
    next
      case False
      with Cons.prems Inr ea have "run_actions B H (Suc i) as r1 d1 = (x, r', d')"
        by simp
      from Cons.IH [OF this] e1 show ?thesis by simp
    qed
  qed
qed

lemma script_body_error:
  "script_body B H s r d = (x, r', d') \<Longrightarrow> error r' = error r"
  by (auto simp: script_body_def Let_def split: sum.splits dest: run_actions_error)

lemma stopping_script_run:
  "execute_script unresponsive no_other stopping_script (Some new_driver) =
     (Inr stopped_report, Some \<lparr>frame_depth = 0, calls = [Refresh, Get_screenshot_as_png]\<rparr>)"
  by (simp add: execute_script_def stopping_script_def stopped_report_def script_body_def
      py_len_def get_or_def initial_results_def execute_action_def call_handler_def handlers_def
      handle_direct_def invoke_def unresponsive_def new_driver_def)

text \<open>
  C2, as amended. A report returned through the normal path (no \<open>error\<close> key) has
  \<open>success\<close> true exactly when its \<open>errors\<close> list is empty; a report returned through
  the outer exception handler (it carries the \<open>error\<close> key) has \<open>success\<close> false,
  whatever its \<open>errors\<close> list holds.
\<close>

theorem success_iff_no_errors:
  "execute_script B H script_data session = (Inr res, session') \<Longrightarrow>
     (error res = None \<longrightarrow> success res = (errors res = [])) \<and>
     (error res \<noteq> None \<longrightarrow> \<not> success res)"
  by (auto simp: execute_script_def initial_results_def
      split: option.splits sum.splits prod.splits dest!: script_body_error)

text \<open>
  A script whose first action fails with \<open>continue_on_error\<close> false: the run stops
  there and the report has \<open>success\<close> false with no action counted as executed.
\<close>

theorem success_iff_no_errors_witness:
  "execute_script unresponsive no_other stopping_script (Some new_driver) =
     (Inr stopped_report, Some \<lparr>frame_depth = 0, calls = [Refresh, Get_screenshot_as_png]\<rparr>) \<and>
   error stopped_report = None \<and>
   success stopped_report = (errors stopped_report = []) \<and>
   \<not> success stopped_report \<and> executed_actions stopped_report = 0"
  using success_iff_no_errors [OF stopping_script_run] stopping_script_run
  by (simp add: stopped_report_def)

text \<open>
  C2 as stated fails on the outer exception path: an action that is a string, not a
  dictionary, raises outside the per-step handling; the report then has \<open>success\<close>
  false although its \<open>errors\<close> list is empty.
\<close>

theorem success_iff_no_errors_counterexample:
  "map_sum exn_class_of (\<lambda>res. (success res, errors res))
     (fst (execute_script responsive no_other (PDict [(''actions'', PList [PStr ''x''])])
             (Some new_driver))) = Inr (False, [])"
  by (simp add: execute_script_def script_body_def py_len_def get_or_def initial_results_def
      attribute_error_def)

text \<open>
  C10. When the handler returns a falsy value without raising, the step is recorded
  with \<open>success\<close> false and \<open>error\<close> null, no screenshot is taken, nothing is added to
  \<open>errors\<close> (so the final \<open>success\<close>, computed from \<open>errors\<close>, is unaffected),
  \<open>executed_actions\<close> grows by one and the loop goes on. The frame handler and the
  jQuery wait return \<open>None\<close> whenever they return.
\<close>

theorem falsy_result_recorded:
  "(call_handler B H action_type action d = (Inr result, d1) \<and> \<not> truthy result \<longrightarrow>
      execute_action B H index action action_type descr r d =
        (False,
         r\<lparr>executed_actions := executed_actions r + 1,
           actions := actions r @
             [\<lparr>a_index = index, a_type = action_type, a_description = descr,
               a_success = False, a_error = None, a_screenshot = None\<rparr>]\<rparr>,
         d1)) \<and>
   (run_handler B H Handle_execute_in_frame action d = (Inr result, d1) \<longrightarrow> result = PNone) \<and>
   (run_handler B H Handle_wait_for_jquery action d = (Inr result, d1) \<longrightarrow> result = PNone)"
  by (auto simp: execute_action_def handle_wait_for_jquery_def Let_def
      split: sum.splits prod.splits if_splits)

theorem falsy_result_recorded_witness:
  "call_handler responsive no_other (PStr ''wait_for_jquery'') jquery_action new_driver =
     (Inr PNone,
      \<lparr>frame_depth = 0,
       calls = [Wait_for_script JQuery_defined_and_idle (PInt 10),
                Wait_for_script JQuery_undefined_or_idle (PInt 10)]\<rparr>) \<and>
   \<not> truthy PNone \<and>
   execute_action responsive no_other 1 jquery_action (PStr ''wait_for_jquery'') (PStr [])
       (initial_results 1) new_driver =
     (False,
      (initial_results 1)
        \<lparr>executed_actions := 1,
         actions := [\<lparr>a_index = 1, a_type = PStr ''wait_for_jquery'', a_description = PStr [],
                      a_success = False, a_error = None, a_screenshot = None\<rparr>]\<rparr>,
      \<lparr>frame_depth = 0,
       calls = [Wait_for_script JQuery_defined_and_idle (PInt 10),
                Wait_for_script JQuery_undefined_or_idle (PInt 10)]\<rparr>)"
  using falsy_result_recorded [of responsive no_other "PStr ''wait_for_jquery''" jquery_action
      new_driver PNone
      "\<lparr>frame_depth = 0,
        calls = [Wait_for_script JQuery_defined_and_idle (PInt 10),
                 Wait_for_script JQuery_undefined_or_idle (PInt 10)]\<rparr>"
      1 "PStr []" "initial_results 1"]
  by (simp add: call_handler_def handlers_def handle_wait_for_jquery_def invoke_def
      responsive_def new_driver_def jquery_action_def initial_results_def)

lemma execute_action_handler_error:
  "call_handler B H ty a d = (Inl e, d1) \<Longrightarrow>
   \<exists>r1 d2 ar.
     execute_action B H i a ty ds r d =
       (get_or a ''continue_on_error'' (PBool True) = PBool False, r1, d2) \<and>
     errors r1 = errors r @ [\<lparr>e_action = a, e_error = exn_str e, e_action_index = i\<rparr>] \<and>
     actions r1 = actions r @ [ar] \<and> a_index ar = i \<and> \<not> a_success ar \<and>
     a_error ar = Some (exn_str e) \<and> executed_actions r1 = executed_actions r"
  by (auto simp: execute_action_def Let_def split: prod.splits sum.splits)

text \<open>What the loop does after a step whose handler raised.\<close>

lemma continue_on_error_raising:
  "(py_get action ''type'' PNone = Inr ty \<and> call_handler B H ty action d = (Inl e, d1) \<and>
    \<not> py_has_key action ''continue_on_error'' \<longrightarrow>
      (\<exists>r1 d2.
         execute_action B H i action ty (get_or action ''description'' (PStr [])) r d = (False, r1, d2) \<and>
         run_actions B H i (action # rest) r d = run_actions B H (Suc i) rest r1 d2)) \<and>
   (py_get action ''type'' PNone = Inr ty \<and> call_handler B H ty action d = (Inl e, d1) \<and>
    py_get action ''continue_on_error'' (PBool True) = Inr (PBool False) \<longrightarrow>
      (\<exists>r1 d2 ar.
         run_actions B H i (action # rest) r d = (None, r1, d2) \<and>
         actions r1 = actions r @ [ar] \<and> a_index ar = i \<and> \<not> a_success ar \<and>
         a_error ar = Some (exn_str e) \<and> executed_actions r1 = executed_actions r))"
proof (intro conjI impI)
  assume h: "py_get action ''type'' PNone = Inr ty \<and> call_handler B H ty action d = (Inl e, d1) \<and>
    \<not> py_has_key action ''continue_on_error''"
  then obtain kvs where a: "action = PDict kvs"
    by (cases action) (auto)
  from h a have c: "get_or action ''continue_on_error'' (PBool True) = PBool True"
    by (auto simp: get_or_def)
  from h obtain r1 d2 where
    "execute_action B H i action ty (get_or action ''description'' (PStr [])) r d =
       (get_or action ''continue_on_error'' (PBool True) = PBool False, r1, d2)"
    using execute_action_handler_error [of B H ty action d e d1 i "get_or action ''description'' (PStr [])" r]
    by blast
  with c h show "\<exists>r1 d2.
         execute_action B H i action ty (get_or action ''description'' (PStr [])) r d = (False, r1, d2) \<and>
         run_actions B H i (action # rest) r d = run_actions B H (Suc i) rest r1 d2"
    by simp
next
  assume h: "py_get action ''type'' PNone = Inr ty \<and> call_handler B H ty action d = (Inl e, d1) \<and>
    py_get action ''continue_on_error'' (PBool True) = Inr (PBool False)"
  then have c: "get_or action ''continue_on_error'' (PBool True) = PBool False"
    by (simp add: get_or_def)
  from h obtain r1 d2 ar where
    "execute_action B H i action ty (get_or action ''description'' (PStr [])) r d =
       (get_or action ''continue_on_error'' (PBool True) = PBool False, r1, d2)"
    "actions r1 = actions r @ [ar]" "a_index ar = i" "\<not> a_success ar"
    "a_error ar = Some (exn_str e)" "executed_actions r1 = executed_actions r"
    using execute_action_handler_error [of B H ty action d e d1 i "get_or action ''description'' (PStr [])" r]
    by blast
  with c h show "\<exists>r1 d2 ar.
         run_actions B H i (action # rest) r d = (None, r1, d2) \<and>
         actions r1 = actions r @ [ar] \<and> a_index ar = i \<and> \<not> a_success ar \<and>
         a_error ar = Some (exn_str e) \<and> executed_actions r1 = executed_actions r"
    by simp
qed

lemma failing_refresh_fails:
  "py_get failing_refresh ''type'' PNone = Inr (PStr ''refresh'') \<and>
   call_handler unresponsive no_other (PStr ''refresh'') failing_refresh new_driver =
     (Inl session_lost, \<lparr>frame_depth = 0, calls = [Refresh]\<rparr>) \<and>
   \<not> py_has_key failing_refresh ''continue_on_error''"
  by (simp add: failing_refresh_def session_lost_def call_handler_def handlers_def
      handle_direct_def invoke_def unresponsive_def new_driver_def)

lemma stopping_refresh_fails:
  "py_get stopping_refresh ''type'' PNone = Inr (PStr ''refresh'') \<and>
   call_handler unresponsive no_other (PStr ''refresh'') stopping_refresh new_driver =
     (Inl session_lost, \<lparr>frame_depth = 0, calls = [Refresh]\<rparr>) \<and>
   py_get stopping_refresh ''continue_on_error'' (PBool True) = Inr (PBool False)"
  by (simp add: stopping_refresh_def session_lost_def call_handler_def handlers_def
      handle_direct_def invoke_def unresponsive_def new_driver_def)

text \<open>A step whose handler returns, whatever it returns, never ends the loop.\<close>

lemma execute_action_no_raise:
  "call_handler B H ty a d = (Inr result, d1) \<Longrightarrow>
   \<exists>r1 d2 ar.
     execute_action B H i a ty ds r d = (False, r1, d2) \<and>
     errors r1 = errors r \<and> actions r1 = actions r @ [ar] \<and> a_index ar = i \<and>
     a_success ar = truthy result \<and> a_error ar = None \<and>
     executed_actions r1 = executed_actions r + 1"
  by (auto simp: execute_action_def Let_def split: prod.splits sum.splits)

lemma continue_on_error_returning:
  "py_get action ''type'' PNone = Inr ty \<and> call_handler B H ty action d = (Inr result, d1) \<longrightarrow>
      (\<exists>r1 d2 ar.
         execute_action B H i action ty (get_or action ''description'' (PStr [])) r d = (False, r1, d2) \<and>
         actions r1 = actions r @ [ar] \<and> a_success ar = truthy result \<and>
         executed_actions r1 = executed_actions r + 1 \<and>
         run_actions B H i (action # rest) r d = run_actions B H (Suc i) rest r1 d2)"
proof
  assume h: "py_get action ''type'' PNone = Inr ty \<and> call_handler B H ty action d = (Inr result, d1)"
  then obtain r1 d2 ar where
    "execute_action B H i action ty (get_or action ''description'' (PStr [])) r d = (False, r1, d2)"
    "actions r1 = actions r @ [ar]" "a_success ar = truthy result"
    "executed_actions r1 = executed_actions r + 1"
    using execute_action_no_raise [of B H ty action d result d1 i "get_or action ''description'' (PStr [])" r]
    by blast
  with h show "\<exists>r1 d2 ar.
         execute_action B H i action ty (get_or action ''description'' (PStr [])) r d = (False, r1, d2) \<and>
         actions r1 = actions r @ [ar] \<and> a_success ar = truthy result \<and>
         executed_actions r1 = executed_actions r + 1 \<and>
         run_actions B H i (action # rest) r d = run_actions B H (Suc i) rest r1 d2"
    by simp
qed

text \<open>
  C3, as amended. An action whose handler raises and that has no
  \<open>continue_on_error\<close> key does not break the loop: the remaining actions are run
  from the state the failed step left. An action whose handler raises with
  \<open>continue_on_error\<close> false ends the loop: the report gains the one result of the
  failing action and nothing for the actions after it, and \<open>executed_actions\<close> is
  not increased. An action whose handler returns, also when it returns \<open>False\<close> to
  report a failure, never ends the loop, whatever \<open>continue_on_error\<close> says: the
  step is counted in \<open>executed_actions\<close> and the remaining actions are run.
\<close>

theorem continue_on_error_policy:
  "(py_get action ''type'' PNone = Inr ty \<and> call_handler B H ty action d = (Inl e, d1) \<and>
    \<not> py_has_key action ''continue_on_error'' \<longrightarrow>
      (\<exists>r1 d2.
         execute_action B H i action ty (get_or action ''description'' (PStr [])) r d = (False, r1, d2) \<and>
         run_actions B H i (action # rest) r d = run_actions B H (Suc i) rest r1 d2)) \<and>
   (py_get action ''type'' PNone = Inr ty \<and> call_handler B H ty action d = (Inl e, d1) \<and>
    py_get action ''continue_on_error'' (PBool True) = Inr (PBool False) \<longrightarrow>
      (\<exists>r1 d2 ar.
         run_actions B H i (action # rest) r d = (None, r1, d2) \<and>
         actions r1 = actions r @ [ar] \<and> a_index ar = i \<and> \<not> a_success ar \<and>
         a_error ar = Some (exn_str e) \<and> executed_actions r1 = executed_actions r)) \<and>
   (py_get action ''type'' PNone = Inr ty \<and> call_handler B H ty action d = (Inr result, d1) \<longrightarrow>
      (\<exists>r1 d2 ar.
         execute_action B H i action ty (get_or action ''description'' (PStr [])) r d = (False, r1, d2) \<and>
         actions r1 = actions r @ [ar] \<and> a_success ar = truthy result \<and>
         executed_actions r1 = executed_actions r + 1 \<and>
         run_actions B H i (action # rest) r d = run_actions B H (Suc i) rest r1 d2))"
  by (rule conjI [OF continue_on_error_raising [THEN conjunct1]
        conjI [OF continue_on_error_raising [THEN conjunct2] continue_on_error_returning]])

lemma stopping_switch_returns_false:
  "py_get stopping_switch ''type'' PNone = Inr (PStr ''switch_to_window'') \<and>
   call_handler no_new_window no_other (PStr ''switch_to_window'') stopping_switch new_driver =
     (Inr (PBool False), waited_for_window)"
  by (simp add: stopping_switch_def call_handler_def handlers_def handle_switch_window_def
      wait_for_new_window_def py_len_def invoke_def waited_for_window_def new_driver_def)

text \<open>
  A \<open>refresh\<close> on a lost session, without and with \<open>continue_on_error\<close> false; and a
  switch to a new window that never opens, with \<open>continue_on_error\<close> false.
\<close>

theorem continue_on_error_policy_witness:
  "(py_get failing_refresh ''type'' PNone = Inr (PStr ''refresh'') \<and>
    call_handler unresponsive no_other (PStr ''refresh'') failing_refresh new_driver =
      (Inl session_lost, \<lparr>frame_depth = 0, calls = [Refresh]\<rparr>) \<and>
    \<not> py_has_key failing_refresh ''continue_on_error'') \<and>
   (\<exists>r1 d2.
      execute_action unresponsive no_other 1 failing_refresh (PStr ''refresh'')
        (get_or failing_refresh ''description'' (PStr [])) (initial_results 2) new_driver =
        (False, r1, d2) \<and>
      run_actions unresponsive no_other 1 [failing_refresh, stopping_refresh, failing_refresh]
        (initial_results 2) new_driver =
      run_actions unresponsive no_other (Suc 1) [stopping_refresh, failing_refresh] r1 d2) \<and>
   (py_get stopping_refresh ''type'' PNone = Inr (PStr ''refresh'') \<and>
    call_handler unresponsive no_other (PStr ''refresh'') stopping_refresh new_driver =
      (Inl session_lost, \<lparr>frame_depth = 0, calls = [Refresh]\<rparr>) \<and>
    py_get stopping_refresh ''continue_on_error'' (PBool True) = Inr (PBool False)) \<and>
   (\<exists>r1 d2 ar.
      run_actions unresponsive no_other 1 [stopping_refresh, failing_refresh]
        (initial_results 2) new_driver = (None, r1, d2) \<and>
      actions r1 = actions (initial_results 2) @ [ar] \<and> a_index ar = 1 \<and> \<not> a_success ar \<and>
      a_error ar = Some (exn_str session_lost) \<and>
      executed_actions r1 = executed_actions (initial_results 2)) \<and>
   (py_get stopping_switch ''type'' PNone = Inr (PStr ''switch_to_window'') \<and>
    call_handler no_new_window no_other (PStr ''switch_to_window'') stopping_switch new_driver =
      (Inr (PBool False), waited_for_window)) \<and>
   (\<exists>r1 d2 ar.
      execute_action no_new_window no_other 1 stopping_switch (PStr ''switch_to_window'')
        (get_or stopping_switch ''description'' (PStr [])) (initial_results 2) new_driver =
        (False, r1, d2) \<and>
      actions r1 = actions (initial_results 2) @ [ar] \<and> a_success ar = truthy (PBool False) \<and>
      executed_actions r1 = executed_actions (initial_results 2) + 1 \<and>
      run_actions no_new_window no_other 1 [stopping_switch, go_back] (initial_results 2) new_driver =
      run_actions no_new_window no_other (Suc 1) [go_back] r1 d2)"
proof -
  note a = continue_on_error_policy [where action = failing_refresh and ty = "PStr ''refresh''"
      and B = unresponsive and H = no_other and d = new_driver and e = session_lost
      and ?d1.0 = "\<lparr>frame_depth = 0, calls = [Refresh]\<rparr>" and i = 1
      and r = "initial_results 2" and rest = "[stopping_refresh, failing_refresh]",
      THEN conjunct1, rule_format, OF failing_refresh_fails]
  note b = continue_on_error_policy [where action = stopping_refresh and ty = "PStr ''refresh''"
      and B = unresponsive and H = no_other and d = new_driver and e = session_lost
      and ?d1.0 = "\<lparr>frame_depth = 0, calls = [Refresh]\<rparr>" and i = 1
      and r = "initial_results 2" and rest = "[failing_refresh]",
      THEN conjunct2, THEN conjunct1, rule_format, OF stopping_refresh_fails]
  note c = continue_on_error_policy [where action = stopping_switch
      and ty = "PStr ''switch_to_window''"
      and B = no_new_window and H = no_other and d = new_driver and result = "PBool False"
      and ?d1.0 = waited_for_window and i = 1
      and r = "initial_results 2" and rest = "[go_back]",
      THEN conjunct2, THEN conjunct2, rule_format, OF stopping_switch_returns_false]
  show ?thesis
    by (rule conjI [OF failing_refresh_fails conjI [OF a conjI [OF stopping_refresh_fails
          conjI [OF b conjI [OF stopping_switch_returns_false c]]]]])
qed

text \<open>
  C3 as stated fails for a failure that is reported by returning \<open>False\<close>: the switch
  to a new window times out with \<open>continue_on_error\<close> false, and the run still goes on
  to the second action and counts both as executed.
\<close>

theorem continue_on_error_policy_counterexample:
  "map_sum exn_class_of (\<lambda>r. (success r, executed_actions r, map a_success (actions r)))
     (fst (execute_script no_new_window no_other
             (PDict [(''actions'', PList [stopping_switch, go_back])]) (Some new_driver))) =
   Inr (True, 2, [False, True])"
  by (simp add: stopping_switch_def go_back_def execute_script_def script_body_def py_len_def
      get_or_def initial_results_def execute_action_def call_handler_def handlers_def
      handle_switch_window_def wait_for_new_window_def handle_direct_def invoke_def new_driver_def)





















section \<open>Properties of locator resolution\<close>

lemma invoke_wait:
  "invoke B (Wait_until c by v t) d =
     (B (Wait_until c by v t) d, d\<lparr>calls := calls d @ [Wait_until c by v t]\<rparr>)"
  by (simp add: invoke_def split: sum.splits)







lemma find_loop_calls:
  "find_loop B t ls d = (f, d') \<Longrightarrow>
   \<exists>cs. calls d' = calls d @ cs \<and> length cs \<le> length ls \<and>
        (\<forall>x\<in>set cs. \<exists>by v. x = Wait_until Visibility_of_element_located by v t)"
proof (induction ls arbitrary: d)
  case Nil
  then show ?case by simp
next
  case (Cons l ls)
  show ?case
  proof (cases "unpack2 l")
    case (Inl e)
    with Cons.prems show ?thesis by auto
  next
    case (Inr p)
    obtain s v where p: "p = (s, v)" by (cases p)
    show ?thesis
    proof (cases "find_by s")
      case None
      with Cons.prems Inr p have "find_loop B t ls d = (f, d')" by simp
      from Cons.IH [OF this] show ?thesis by auto
    next
      case (Some st)
      let ?c = "Wait_until Visibility_of_element_located st v t"
      let ?d1 = "d\<lparr>calls := calls d @ [?c]\<rparr>"
      consider (found) el where "B ?c d = Inr el"
        | (missing) e where "B ?c d = Inl e" "not_found_or_timeout e"
        | (broken) e where "B ?c d = Inl e" "\<not> not_found_or_timeout e"
        by (cases "B ?c d") auto
      then show ?thesis
      proof cases
        case found
        with Cons.prems Inr p Some show ?thesis
          by (auto simp: invoke_wait)
      next
        case missing
        with Cons.prems Inr p Some have "find_loop B t ls ?d1 = (f, d')"
          by (simp add: invoke_wait)
        from Cons.IH [OF this] obtain cs where
          "calls d' = calls ?d1 @ cs" "length cs \<le> length ls"
          "\<forall>x\<in>set cs. \<exists>by v. x = Wait_until Visibility_of_element_located by v t" by blast
        then show ?thesis
          by (intro exI [of _ "?c # cs"]) auto
      next
        case broken
        with Cons.prems Inr p Some show ?thesis
          by (auto simp: invoke_wait)
      qed
    qed
  qed
qed







lemma find_element_calls:
  assumes "find_element B action d = (res, d')"
  shows "\<exists>cs. calls d' = calls d @ cs \<and>
              (\<forall>x\<in>set cs. \<exists>by v. x = Wait_until Visibility_of_element_located by v
                                         (get_or action ''timeout'' (PInt 10)))"
proof (cases "\<exists>locators ls. py_get action ''locators'' (PList []) = Inr locators \<and>
                py_iter locators = Inr ls")
  case False
  with assms have "d' = d"
    by (auto simp: find_element_def Let_def split: sum.splits if_splits)
  then show ?thesis by simp
next
  case True
  then obtain locators ls where
    l: "py_get action ''locators'' (PList []) = Inr locators" "py_iter locators = Inr ls"
    by blast
  obtain f d2 where w: "find_loop B (get_or action ''timeout'' (PInt 10)) ls d = (f, d2)"
    by (cases "find_loop B (get_or action ''timeout'' (PInt 10)) ls d") auto
  with assms l have "d' = d2"
    by (cases f) (auto simp: find_element_def Let_def)
  with find_loop_calls [OF w] show ?thesis by blast
qed



text \<open>A locator whose wait ends in not-found or timeout hands over to the next one.\<close>

lemma wait_loop_skip:
  "unpack2 l = Inr (s, v) \<Longrightarrow> get_by_from_string s = Inr (Some st) \<Longrightarrow>
   B (Wait_until c st v t) d = Inl e \<Longrightarrow> not_found_or_timeout e \<Longrightarrow>
   wait_loop B c t (l # ls) d =
     wait_loop B c t ls (d\<lparr>calls := calls d @ [Wait_until c st v t]\<rparr>)"
  by (simp add: invoke_wait)

lemma find_loop_skip:
  "unpack2 l = Inr (s, v) \<Longrightarrow> find_by s = Some st \<Longrightarrow>
   B (Wait_until Visibility_of_element_located st v t) d = Inl e \<Longrightarrow> not_found_or_timeout e \<Longrightarrow>
   find_loop B t (l # ls) d =
     find_loop B t ls (d\<lparr>calls := calls d @ [Wait_until Visibility_of_element_located st v t]\<rparr>)"
  by (simp add: invoke_wait)








text \<open>
  What the three resolvers do with an empty list of locators (or none): none of them
  issues a backend operation.
\<close>

lemma empty_locators:
  "py_get action ''locators'' (PList []) = Inr (PList []) \<longrightarrow>
     find_element_with_wait B action c d =
       (Inl (Exn ValueError [Lit ''No locators provided for wait action'']), d) \<and>
     handle_wait_for_element_invisible B action d =
       (Inl (Exn ValueError [Lit ''No locators provided for wait_for_element_invisible'']), d) \<and>
     find_element B action d =
       (Inl (Exn NoSuchElementException
               [Lit ''Could not find element with any of the provided locators: '',
                Val (PList [])]), d)"
  by (simp add: find_element_with_wait_def handle_wait_for_element_invisible_def find_element_def)

lemma handle_click_empty_locators:
  "py_get action ''locators'' (PList []) = Inr (PList []) \<Longrightarrow>
   get_or action ''x'' PNone = PNone \<or> get_or action ''y'' PNone = PNone \<Longrightarrow>
   handle_click B action d =
     (Inl (Exn NoSuchElementException [Lit ''Could not find element with provided locators'']), d)"
  by (auto simp: handle_click_def Let_def)

text \<open>
  C4 does not hold for \<open>_find_element\<close>. With an empty list of locators the
  explicit-wait resolver and the invisibility wait raise the parameter error
  (\<open>ValueError\<close>) before any lookup; \<open>_find_element\<close> has no such check and reports
  not-found (\<open>NoSuchElementException\<close>), still without any lookup.
\<close>

theorem empty_locators_not_found:
  "find_element responsive no_locators new_driver =
     (Inl (Exn NoSuchElementException
             [Lit ''Could not find element with any of the provided locators: '',
              Val (PList [])]), new_driver) \<and>
   find_element_with_wait responsive no_locators Presence_of_element_located new_driver =
     (Inl (Exn ValueError [Lit ''No locators provided for wait action'']), new_driver) \<and>
   handle_wait_for_element_invisible responsive no_locators new_driver =
     (Inl (Exn ValueError [Lit ''No locators provided for wait_for_element_invisible'']), new_driver)"
  by (simp add: no_locators_def find_element_def find_element_with_wait_def
      handle_wait_for_element_invisible_def)

text \<open>
  C7 does not hold for \<open>_find_element\<close>. On a page where \<open>id = q\<close> resolves, the
  locator \<open>["ID", "q"]\<close> is found by the explicit-wait resolver and clicked by the
  click handler, which upper-case the strategy name; \<open>_find_element\<close> finds
  \<open>["id", "q"]\<close> but for \<open>["ID", "q"]\<close> issues no lookup at all and reports not-found.
\<close>

theorem strategy_name_case:
  "find_element_with_wait search_page (locate_q ''ID'') Visibility_of_element_located new_driver =
     (Inr (PObj 1),
      \<lparr>frame_depth = 0,
       calls = [Wait_until Visibility_of_element_located By_ID (PStr ''q'') (PInt 10)]\<rparr>) \<and>
   fst (handle_click search_page (locate_q ''ID'') new_driver) = Inr (PBool True) \<and>
   find_element search_page (locate_q ''id'') new_driver =
     (Inr (PObj 1),
      \<lparr>frame_depth = 0,
       calls = [Wait_until Visibility_of_element_located By_ID (PStr ''q'') (PInt 10)]\<rparr>) \<and>
   find_element search_page (locate_q ''ID'') new_driver =
     (Inl (Exn NoSuchElementException
             [Lit ''Could not find element with any of the provided locators: '',
              Val (PList [PList [PStr ''ID'', PStr ''q'']])]), new_driver)"
  by (simp add: locate_q_def find_element_with_wait_def find_element_def handle_click_def
      unpack2_def get_by_from_string_def click_by_def by_table_def upper_char_def find_by_def
      invoke_def get_or_def new_driver_def)

section \<open>Properties of the select, frame and window handlers\<close>

lemma invoke_calls:
  "calls (snd (invoke B c d)) = calls d @ [c]"
  by (cases c) (auto simp: invoke_def split: sum.splits)

lemma invoke_select_init:
  "invoke B (Select_init el) d = (B (Select_init el) d, d\<lparr>calls := calls d @ [Select_init el]\<rparr>)"
  by (simp add: invoke_def split: sum.splits)

lemma find_element_no_selection:
  assumes "find_element B action d = (res, d')"
  shows "filter selection_call (calls d') = filter selection_call (calls d)"
proof -
  from find_element_calls [OF assms] obtain cs where
    cs: "calls d' = calls d @ cs"
        "\<forall>x\<in>set cs. \<exists>by v. x = Wait_until Visibility_of_element_located by v
                                 (get_or action ''timeout'' (PInt 10))"
    by blast
  from cs(2) have "filter selection_call cs = []"
    by (auto simp: filter_empty_conv)
  with cs(1) show ?thesis by simp
qed

lemma calls_after_invoke:
  "calls (snd (case invoke B c d of (Inl e, d3) \<Rightarrow> (Inl e, d3) | (Inr r, d3) \<Rightarrow> (Inr v, d3))) =
     calls d @ [c]"
  using invoke_calls [of B c d]
  by (auto split: prod.splits sum.splits)

lemma handle_select_resolved:
  assumes "find_element B action d = (Inr el, d1)" and "B (Select_init el) d1 = Inr sel"
  shows "handle_select B action d =
     (if py_has_key action ''value''
      then (case invoke B (Select_by_value sel (get_or action ''value'' PNone))
                  (d1\<lparr>calls := calls d1 @ [Select_init el]\<rparr>) of
              (Inl e, d3) \<Rightarrow> (Inl e, d3)
            | (Inr r, d3) \<Rightarrow> (Inr (PBool True), d3))
      else if py_has_key action ''index''
      then (case invoke B (Select_by_index sel (get_or action ''index'' PNone))
                  (d1\<lparr>calls := calls d1 @ [Select_init el]\<rparr>) of
              (Inl e, d3) \<Rightarrow> (Inl e, d3)
            | (Inr r, d3) \<Rightarrow> (Inr (PBool True), d3))
      else if py_has_key action ''visible_text''
      then (case invoke B (Select_by_visible_text sel (get_or action ''visible_text'' PNone))
                  (d1\<lparr>calls := calls d1 @ [Select_init el]\<rparr>) of
              (Inl e, d3) \<Rightarrow> (Inl e, d3)
            | (Inr r, d3) \<Rightarrow> (Inr (PBool True), d3))
      else (Inl (Exn ValueError [Lit ''No valid selection criteria provided for select action'']),
            d1\<lparr>calls := calls d1 @ [Select_init el]\<rparr>))"
  by (simp add: handle_select_def invoke_select_init assms)

lemma handle_select_no_criteria_isl:
  "\<not> py_has_key action ''value'' \<Longrightarrow> \<not> py_has_key action ''index'' \<Longrightarrow>
   \<not> py_has_key action ''visible_text'' \<Longrightarrow> isl (fst (handle_select B action d))"
  by (auto simp: handle_select_def invoke_def split: sum.splits prod.splits)

text \<open>
  C8, as amended. The select handler resolves the element and wraps it before it
  looks at the criteria. For an action with none of \<open>value\<close>, \<open>index\<close>,
  \<open>visible_text\<close>: it always raises, it issues no selection operation, and once the
  element is resolved and wrapped the error is the parameter error. With criteria
  present, exactly one selection is issued after the wrap: by value if \<open>value\<close> is
  there, else by index if \<open>index\<close> is there, else by visible text.
\<close>

theorem select_criteria:
  "(\<not> py_has_key action ''value'' \<and> \<not> py_has_key action ''index'' \<and>
    \<not> py_has_key action ''visible_text'' \<and>
    find_element B action d = (Inr el, d1) \<and> B (Select_init el) d1 = Inr sel \<longrightarrow>
      handle_select B action d =
        (Inl (Exn ValueError [Lit ''No valid selection criteria provided for select action'']),
         d1\<lparr>calls := calls d1 @ [Select_init el]\<rparr>)) \<and>
   (\<not> py_has_key action ''value'' \<and> \<not> py_has_key action ''index'' \<and>
    \<not> py_has_key action ''visible_text'' \<and> handle_select B action d = (res, d') \<longrightarrow>
      (\<exists>e. res = Inl e) \<and>
      filter selection_call (calls d') = filter selection_call (calls d)) \<and>
   (py_has_key action ''value'' \<and>
    find_element B action d = (Inr el, d1) \<and> B (Select_init el) d1 = Inr sel \<longrightarrow>
      calls (snd (handle_select B action d)) =
        calls d1 @ [Select_init el, Select_by_value sel (get_or action ''value'' PNone)]) \<and>
   (\<not> py_has_key action ''value'' \<and> py_has_key action ''index'' \<and>
    find_element B action d = (Inr el, d1) \<and> B (Select_init el) d1 = Inr sel \<longrightarrow>
      calls (snd (handle_select B action d)) =
        calls d1 @ [Select_init el, Select_by_index sel (get_or action ''index'' PNone)]) \<and>
   (\<not> py_has_key action ''value'' \<and> \<not> py_has_key action ''index'' \<and>
    py_has_key action ''visible_text'' \<and>
    find_element B action d = (Inr el, d1) \<and> B (Select_init el) d1 = Inr sel \<longrightarrow>
      calls (snd (handle_select B action d)) =
        calls d1 @ [Select_init el, Select_by_visible_text sel (get_or action ''visible_text'' PNone)])"
proof (intro conjI impI)
  assume h: "\<not> py_has_key action ''value'' \<and> \<not> py_has_key action ''index'' \<and>
    \<not> py_has_key action ''visible_text'' \<and> handle_select B action d = (res, d')"
  obtain fr d1 where f: "find_element B action d = (fr, d1)"
    by (cases "find_element B action d") auto
  note n = find_element_no_selection [OF f]
  have "isl (fst (handle_select B action d))"
    using h handle_select_no_criteria_isl [of action B d] by blast
  with h show "\<exists>e. res = Inl e"
    by (cases res) auto
  show "filter selection_call (calls d') = filter selection_call (calls d)"
  proof (cases fr)
    case (Inl e)
    with h f have "d' = d1" by (simp add: handle_select_def)
    with n show ?thesis by simp
  next
    case (Inr element)
    with h f have "calls d' = calls d1 @ [Select_init element]"
      by (auto simp: handle_select_def invoke_select_init split: sum.splits)
    with n show ?thesis by simp
  qed
next
  assume "\<not> py_has_key action ''value'' \<and> \<not> py_has_key action ''index'' \<and>
    \<not> py_has_key action ''visible_text'' \<and>
    find_element B action d = (Inr el, d1) \<and> B (Select_init el) d1 = Inr sel"
  then have f: "find_element B action d = (Inr el, d1)" and s: "B (Select_init el) d1 = Inr sel"
    and k: "\<not> py_has_key action ''value''" "\<not> py_has_key action ''index''"
      "\<not> py_has_key action ''visible_text''"
    by blast+
  from k show "handle_select B action d =
        (Inl (Exn ValueError [Lit ''No valid selection criteria provided for select action'']),
         d1\<lparr>calls := calls d1 @ [Select_init el]\<rparr>)"
    by (simp add: handle_select_resolved [OF f s])
next
  assume "py_has_key action ''value'' \<and>
    find_element B action d = (Inr el, d1) \<and> B (Select_init el) d1 = Inr sel"
  then have f: "find_element B action d = (Inr el, d1)" and s: "B (Select_init el) d1 = Inr sel"
    and k: "py_has_key action ''value''"
    by blast+
  from k show "calls (snd (handle_select B action d)) =
        calls d1 @ [Select_init el, Select_by_value sel (get_or action ''value'' PNone)]"
    by (simp add: handle_select_resolved [OF f s] calls_after_invoke)
next
  assume "\<not> py_has_key action ''value'' \<and> py_has_key action ''index'' \<and>
    find_element B action d = (Inr el, d1) \<and> B (Select_init el) d1 = Inr sel"
  then have f: "find_element B action d = (Inr el, d1)" and s: "B (Select_init el) d1 = Inr sel"
    and k: "\<not> py_has_key action ''value''" "py_has_key action ''index''"
    by blast+
  from k show "calls (snd (handle_select B action d)) =
        calls d1 @ [Select_init el, Select_by_index sel (get_or action ''index'' PNone)]"
    by (simp add: handle_select_resolved [OF f s] calls_after_invoke)
next
  assume "\<not> py_has_key action ''value'' \<and> \<not> py_has_key action ''index'' \<and>
    py_has_key action ''visible_text'' \<and>
    find_element B action d = (Inr el, d1) \<and> B (Select_init el) d1 = Inr sel"
  then have f: "find_element B action d = (Inr el, d1)" and s: "B (Select_init el) d1 = Inr sel"
    and k: "\<not> py_has_key action ''value''" "\<not> py_has_key action ''index''"
      "py_has_key action ''visible_text''"
    by blast+
  from k show "calls (snd (handle_select B action d)) =
        calls d1 @ [Select_init el, Select_by_visible_text sel (get_or action ''visible_text'' PNone)]"
    by (simp add: handle_select_resolved [OF f s] calls_after_invoke)
qed

lemma select_q_none:
  "\<not> py_has_key (select_q []) ''value'' \<and> \<not> py_has_key (select_q []) ''index'' \<and>
   \<not> py_has_key (select_q []) ''visible_text'' \<and>
   find_element search_page (select_q []) new_driver = (Inr (PObj 1), looked_up) \<and>
   search_page (Select_init (PObj 1)) looked_up = Inr (PObj 0)"
  by (simp add: select_q_def id_q_def looked_up_def find_element_def unpack2_def find_by_def
      invoke_def get_or_def new_driver_def)

lemma select_q_text:
  "\<not> py_has_key (select_q by_text) ''value'' \<and> \<not> py_has_key (select_q by_text) ''index'' \<and>
   py_has_key (select_q by_text) ''visible_text'' \<and>
   find_element search_page (select_q by_text) new_driver = (Inr (PObj 1), looked_up) \<and>
   search_page (Select_init (PObj 1)) looked_up = Inr (PObj 0)"
  by (simp add: select_q_def by_text_def id_q_def looked_up_def find_element_def unpack2_def
      find_by_def invoke_def get_or_def new_driver_def)

lemma select_q_index:
  "\<not> py_has_key (select_q by_index_or_text) ''value'' \<and>
   py_has_key (select_q by_index_or_text) ''index'' \<and>
   find_element search_page (select_q by_index_or_text) new_driver = (Inr (PObj 1), looked_up) \<and>
   search_page (Select_init (PObj 1)) looked_up = Inr (PObj 0)"
  by (simp add: select_q_def by_index_or_text_def id_q_def looked_up_def find_element_def
      unpack2_def find_by_def invoke_def get_or_def new_driver_def)

lemma select_q_value:
  "py_has_key (select_q by_any) ''value'' \<and>
   find_element search_page (select_q by_any) new_driver = (Inr (PObj 1), looked_up) \<and>
   search_page (Select_init (PObj 1)) looked_up = Inr (PObj 0)"
  by (simp add: select_q_def by_any_def id_q_def looked_up_def find_element_def
      unpack2_def find_by_def invoke_def get_or_def new_driver_def)

lemma wrapped_eq:
  "looked_up\<lparr>calls := calls looked_up @ [Select_init (PObj 1)]\<rparr> = wrapped"
  by (simp add: looked_up_def wrapped_def)

text \<open>
  A page where \<open>id = q\<close> resolves, and select actions with no criterion, with all
  three, with index and text, and with text only.
\<close>

theorem select_criteria_witness:
  "(\<not> py_has_key (select_q []) ''value'' \<and> \<not> py_has_key (select_q []) ''index'' \<and>
    \<not> py_has_key (select_q []) ''visible_text'' \<and>
    find_element search_page (select_q []) new_driver = (Inr (PObj 1), looked_up) \<and>
    search_page (Select_init (PObj 1)) looked_up = Inr (PObj 0)) \<and>
   handle_select search_page (select_q []) new_driver = (Inl no_criterion, wrapped) \<and>
   filter selection_call (calls wrapped) = filter selection_call (calls new_driver) \<and>
   (py_has_key (select_q by_any) ''value'' \<and>
    find_element search_page (select_q by_any) new_driver = (Inr (PObj 1), looked_up) \<and>
    search_page (Select_init (PObj 1)) looked_up = Inr (PObj 0)) \<and>
   calls (snd (handle_select search_page (select_q by_any) new_driver)) =
     calls looked_up @
       [Select_init (PObj 1), Select_by_value (PObj 0) (get_or (select_q by_any) ''value'' PNone)] \<and>
   (\<not> py_has_key (select_q by_index_or_text) ''value'' \<and>
    py_has_key (select_q by_index_or_text) ''index'' \<and>
    find_element search_page (select_q by_index_or_text) new_driver = (Inr (PObj 1), looked_up) \<and>
    search_page (Select_init (PObj 1)) looked_up = Inr (PObj 0)) \<and>
   calls (snd (handle_select search_page (select_q by_index_or_text) new_driver)) =
     calls looked_up @
       [Select_init (PObj 1),
        Select_by_index (PObj 0) (get_or (select_q by_index_or_text) ''index'' PNone)] \<and>
   (\<not> py_has_key (select_q by_text) ''value'' \<and> \<not> py_has_key (select_q by_text) ''index'' \<and>
    py_has_key (select_q by_text) ''visible_text'' \<and>
    find_element search_page (select_q by_text) new_driver = (Inr (PObj 1), looked_up) \<and>
    search_page (Select_init (PObj 1)) looked_up = Inr (PObj 0)) \<and>
   calls (snd (handle_select search_page (select_q by_text) new_driver)) =
     calls looked_up @
       [Select_init (PObj 1),
        Select_by_visible_text (PObj 0) (get_or (select_q by_text) ''visible_text'' PNone)]"
proof -
  note none = select_criteria [where B = search_page and action = "select_q []"
      and d = new_driver and ?d1.0 = looked_up and el = "PObj 1" and sel = "PObj 0"
      and res = "Inl no_criterion" and d' = wrapped,
      unfolded wrapped_eq, folded no_criterion_def]
  note any = select_criteria [where B = search_page and action = "select_q by_any"
      and d = new_driver and ?d1.0 = looked_up and el = "PObj 1" and sel = "PObj 0"]
  note idx = select_criteria [where B = search_page and action = "select_q by_index_or_text"
      and d = new_driver and ?d1.0 = looked_up and el = "PObj 1" and sel = "PObj 0"]
  note vis = select_criteria [where B = search_page and action = "select_q by_text"
      and d = new_driver and ?d1.0 = looked_up and el = "PObj 1" and sel = "PObj 0"]
  have a: "handle_select search_page (select_q []) new_driver = (Inl no_criterion, wrapped)"
    by (rule none [THEN conjunct1, rule_format, OF select_q_none])
  have b: "filter selection_call (calls wrapped) = filter selection_call (calls new_driver)"
    using none [THEN conjunct2, THEN conjunct1, rule_format] select_q_none a by blast
  note c1 = any [THEN conjunct2, THEN conjunct2, THEN conjunct1, rule_format, OF select_q_value]
  note c2 = idx [THEN conjunct2, THEN conjunct2, THEN conjunct2, THEN conjunct1, rule_format,
      OF select_q_index]
  note c3 = vis [THEN conjunct2, THEN conjunct2, THEN conjunct2, THEN conjunct2, rule_format,
      OF select_q_text]
  show ?thesis
    by (rule conjI [OF select_q_none conjI [OF a conjI [OF b conjI [OF select_q_value
          conjI [OF c1 conjI [OF select_q_index conjI [OF c2 conjI [OF select_q_text c3]]]]]]]])
qed

text \<open>
  C8 as stated fails: without any criterion the handler still issues the lookup and
  the wrap to the backend before it raises the parameter error.
\<close>

theorem select_criteria_counterexample:
  "map_sum exn_class_of id (fst (handle_select search_page (select_q []) new_driver)) =
     Inl ValueError \<and>
   calls (snd (handle_select search_page (select_q []) new_driver)) =
     [Wait_until Visibility_of_element_located By_ID (PStr ''q'') (PInt 10), Select_init (PObj 1)]"
  by (simp add: select_q_def id_q_def handle_select_def find_element_def unpack2_def find_by_def
      invoke_def get_or_def new_driver_def)

text \<open>
  C6, as amended. When \<open>frame_locator\<close> and \<open>actions\<close> are both non-empty, the last
  operation the frame handler issues is the switch to the default content, on every
  path (entering failed, a nested action failed, all succeeded); if the backend
  performs that switch the frame depth is 0 afterwards, and if the switch itself
  raises, that exception is what the handler raises. When either is empty the handler
  returns at once and leaves the session as it was.
\<close>

theorem frame_context_restored:
  "(py_get action ''frame_locator'' PNone = Inr fl \<and> truthy fl \<and>
    truthy (get_or action ''actions'' (PList [])) \<and>
    run_handler B H Handle_execute_in_frame action d = (res, d') \<longrightarrow>
      (\<exists>d1. calls d' = calls d1 @ [Switch_to_default_content] \<and>
            (case B Switch_to_default_content d1 of
               Inr r \<Rightarrow> frame_depth d' = 0
             | Inl e \<Rightarrow> res = Inl e))) \<and>
   (py_get action ''frame_locator'' PNone = Inr fl \<and>
    (\<not> truthy fl \<or> \<not> truthy (get_or action ''actions'' (PList []))) \<longrightarrow>
      run_handler B H Handle_execute_in_frame action d = (Inr PNone, d))"
proof (intro conjI impI)
  assume h: "py_get action ''frame_locator'' PNone = Inr fl \<and> truthy fl \<and>
    truthy (get_or action ''actions'' (PList [])) \<and>
    run_handler B H Handle_execute_in_frame action d = (res, d')"
  define body where "body =
    (case enter_frame B fl d of
       (Inl e, d0) \<Rightarrow> (Inl e, d0)
     | (Inr r, d0) \<Rightarrow>
         (case get_or action ''actions'' (PList []) of
            PList items \<Rightarrow> run_frame_actions B H items d0
          | _ \<Rightarrow> (Inl (non_list_actions_error (get_or action ''actions'' (PList []))), d0)))"
  obtain b d1 where b: "body = (b, d1)" by (cases body) auto
  from h have h1: "py_get action ''frame_locator'' PNone = Inr fl" and h2: "truthy fl"
    and h3: "truthy (get_or action ''actions'' (PList []))"
    and h4: "run_handler B H Handle_execute_in_frame action d = (res, d')"
    by blast+
  from h4 h1 h2 h3 b have r: "(res, d') =
      (case invoke B Switch_to_default_content d1 of
         (Inl e, d2) \<Rightarrow> (Inl e, d2)
       | (Inr r, d2) \<Rightarrow> (case b of Inl e \<Rightarrow> (Inl e, d2) | Inr r' \<Rightarrow> (Inr PNone, d2)))"
    by (simp add: body_def)
  have "calls d' = calls d1 @ [Switch_to_default_content] \<and>
        (case B Switch_to_default_content d1 of Inr r \<Rightarrow> frame_depth d' = 0 | Inl e \<Rightarrow> res = Inl e)"
    using r by (auto simp: invoke_def split: sum.splits)
  then show "\<exists>d1. calls d' = calls d1 @ [Switch_to_default_content] \<and>
            (case B Switch_to_default_content d1 of
               Inr r \<Rightarrow> frame_depth d' = 0
             | Inl e \<Rightarrow> res = Inl e)"
    by blast
next
  assume "py_get action ''frame_locator'' PNone = Inr fl \<and>
    (\<not> truthy fl \<or> \<not> truthy (get_or action ''actions'' (PList [])))"
  then show "run_handler B H Handle_execute_in_frame action d = (Inr PNone, d)"
    by auto
qed

lemma frame_action_run:
  "py_get frame_action ''frame_locator'' PNone = Inr frame_zero \<and> truthy frame_zero \<and>
   truthy (get_or frame_action ''actions'' (PList [])) \<and>
   run_handler no_history no_other Handle_execute_in_frame frame_action new_driver =
     (Inl cannot_go_back, left_frame)"
  by (simp add: frame_action_def frame_zero_def get_or_def enter_frame_def invoke_def
      handlers_def handle_direct_def cannot_go_back_def left_frame_def new_driver_def)

lemma empty_frame_action_run:
  "py_get empty_frame_action ''frame_locator'' PNone = Inr frame_zero \<and>
   \<not> truthy (get_or empty_frame_action ''actions'' (PList []))"
  by (simp add: empty_frame_action_def frame_zero_def get_or_def)

text \<open>
  Three nested actions of which the second raises: the handler raises and the session
  is back at depth 0. The same frame with no nested actions, called inside a frame:
  nothing happens.
\<close>

theorem frame_context_restored_witness:
  "(py_get frame_action ''frame_locator'' PNone = Inr frame_zero \<and> truthy frame_zero \<and>
    truthy (get_or frame_action ''actions'' (PList [])) \<and>
    run_handler no_history no_other Handle_execute_in_frame frame_action new_driver =
      (Inl cannot_go_back, left_frame)) \<and>
   (\<exists>d1. calls left_frame = calls d1 @ [Switch_to_default_content] \<and>
         (case no_history Switch_to_default_content d1 of
            Inr r \<Rightarrow> frame_depth left_frame = 0
          | Inl e \<Rightarrow> (Inl cannot_go_back :: exn + pyval) = Inl e)) \<and>
   frame_depth left_frame = 0 \<and>
   (py_get empty_frame_action ''frame_locator'' PNone = Inr frame_zero \<and>
    \<not> truthy (get_or empty_frame_action ''actions'' (PList []))) \<and>
   run_handler no_history no_other Handle_execute_in_frame empty_frame_action inside_frame =
     (Inr PNone, inside_frame)"
proof -
  have a: "\<exists>d1. calls left_frame = calls d1 @ [Switch_to_default_content] \<and>
         (case no_history Switch_to_default_content d1 of
            Inr r \<Rightarrow> frame_depth left_frame = 0
          | Inl e \<Rightarrow> (Inl cannot_go_back :: exn + pyval) = Inl e)"
    by (rule frame_context_restored [where B = no_history and H = no_other
      and action = frame_action and fl = frame_zero and d = new_driver
      and res = "Inl cannot_go_back" and d' = left_frame,
      THEN conjunct1, rule_format, OF frame_action_run])
  have b: "run_handler no_history no_other Handle_execute_in_frame empty_frame_action inside_frame =
     (Inr PNone, inside_frame)"
    by (rule frame_context_restored [where B = no_history and H = no_other
      and action = empty_frame_action and fl = frame_zero and d = inside_frame,
      THEN conjunct2, rule_format])
       (use empty_frame_action_run in blast)
  have z: "frame_depth left_frame = 0"
    by (simp add: left_frame_def)
  show ?thesis
    by (rule conjI [OF frame_action_run conjI [OF a conjI [OF z
          conjI [OF empty_frame_action_run b]]]])
qed

text \<open>
  C6 as stated fails on the early return: after a \<open>switch_to_frame\<close> action, an
  \<open>execute_in_frame\<close> action with an empty \<open>actions\<close> list completes and the session
  is still inside the frame.
\<close>

theorem frame_context_restored_counterexample:
  "map_option frame_depth (snd (execute_script responsive no_other stuck_script (Some new_driver))) =
     Some 1 \<and>
   map_sum exn_class_of (\<lambda>r. (success r, executed_actions r))
     (fst (execute_script responsive no_other stuck_script (Some new_driver))) = Inr (True, 2)"
  by (simp add: stuck_script_def empty_frame_action_def frame_zero_def execute_script_def
      script_body_def py_len_def get_or_def initial_results_def execute_action_def
      call_handler_def handlers_def handle_switch_to_frame_def handle_direct_def invoke_def
      responsive_def new_driver_def)

text \<open>
  C9 does not hold when more than one window is open already. Windows \<open>A\<close> and \<open>B\<close>
  are open and \<open>B\<close> is current; the wait for a third window succeeds when \<open>C\<close>
  opens; the handler switches to the first handle that is not the current one, which
  is the old window \<open>A\<close>, not the new window \<open>C\<close>.
\<close>

theorem switch_to_new_window_picks_old:
  "handle_switch_window three_windows (PDict [(''type'', PStr ''switch_to_window'')]) new_driver =
     (Inr (PBool True),
      \<lparr>frame_depth = 0,
       calls = [Current_window_handle, Window_handles, Wait_number_of_windows 10 3,
                Window_handles, Switch_to_window (PStr ''A'')]\<rparr>)"
  by (simp add: handle_switch_window_def wait_for_new_window_def py_len_def invoke_def
      new_driver_def)

text \<open>
  What does hold for the \<open>"new"\<close> target: the wait is for one window more than were
  open at the call, with the fixed timeout 10, and a timeout makes the handler return
  \<open>False\<close> instead of raising.
\<close>

lemma switch_window_waits_for_one_more:
  "B Window_handles d = Inr (PList hs) \<Longrightarrow>
   wait_for_new_window B d =
     invoke B (Wait_number_of_windows 10 (length hs + 1)) (d\<lparr>calls := calls d @ [Window_handles]\<rparr>)"
  by (simp add: wait_for_new_window_def invoke_def py_len_def)

lemma switch_window_timeout:
  "py_get action ''target'' (PStr ''new'') = Inr (PStr ''new'') \<Longrightarrow>
   B Current_window_handle d = Inr w \<Longrightarrow>
   wait_for_new_window B (d\<lparr>calls := calls d @ [Current_window_handle]\<rparr>) =
     (Inl (Exn TimeoutException m), d2) \<Longrightarrow>
   handle_switch_window B action d = (Inr (PBool False), d2)"
  by (simp add: handle_switch_window_def invoke_def)

end
